theory Spec2Isabelle
  imports Complex_Main "HOL-Library.AList" "HOL-Library.Sublist"
begin

section \<open>Python values and exceptions\<close>

text \<open>
  Exceptions are values: every function of the model that can raise returns
  \<open>error + 'a\<close>, with \<open>Inl\<close> for the exception.  \<open>ExternalError\<close> stands for any
  exception of a library the repository calls (pandas, sklearn, econml, dowhy, flaml).
\<close>

datatype error =
    AttributeError
  | AssertionError
  | IndexError
  | KeyError
  | TypeError
  | ValueError
  | ExternalError string

text \<open>
  Plain Python values, as a setting such as \<open>estimator_list\<close> or a hyperparameter can
  hold them.  \<open>PObj\<close> is an object the model does not look into (a search-space
  distribution, a component model), named by its representation.
\<close>

datatype pyval =
    PNone
  | PBool bool
  | PInt int
  | PFloat real
  | PStr string
  | PList "pyval list"
  | PObj string

text \<open>A Python \<open>dict\<close> with string keys: an association list in insertion order.\<close>

type_synonym 'v dict = "(string \<times> 'v) list"

section \<open>Estimator-list resolution (\<open>optimiser.py\<close>)\<close>

text \<open>Python's \<open>r in a\<close> on two strings: \<open>r\<close> occurs in \<open>a\<close> as a contiguous run.\<close>

fun str_in :: "string \<Rightarrow> string \<Rightarrow> bool" where
  "str_in r [] = (r = [])"
| "str_in r (c # cs) = (prefix r (c # cs) \<or> str_in r cs)"

text \<open>\<open>e in estimator\<close> where the left operand may be any value: only a string is allowed.\<close>

fun py_in_str :: "pyval \<Rightarrow> string \<Rightarrow> error + bool" where
  "py_in_str (PStr r) a = Inr (str_in r a)"
| "py_in_str _ a = Inl TypeError"

text \<open>The eight name fragments of \<open>_create_estimator_list\<close> (lines 161-170).\<close>

definition supported_patterns :: "string list" where
  "supported_patterns =
     [''metalearners'', ''CausalForestDML'', ''.LinearDML'', ''SparseLinearDML'',
      ''ForestDRLearner'', ''LinearDRLearner'', ''Ortho'', ''TransformedOutcome'']"

text \<open>
  Lines 156-173: the estimators of the registry (\<open>self.cfg.estimators()\<close>, a parameter
  here: the registry is not part of the sources) whose name contains one of the fragments.
\<close>

definition available_estimators :: "string list \<Rightarrow> string list" where
  "available_estimators registry =
     filter (\<lambda>estimator. list_ex (\<lambda>e. str_in e estimator) supported_patterns) registry"

text \<open>\<open>_verify_estimator_list\<close> (lines 205-213).\<close>

fun is_str :: "pyval \<Rightarrow> bool" where
  "is_str (PStr s) = True"
| "is_str _ = False"

fun verify_estimator_list :: "pyval \<Rightarrow> bool" where
  "verify_estimator_list (PList es) = list_all is_str es"
| "verify_estimator_list _ = False"

text \<open>
  \<open>list(dict.fromkeys(xs))\<close>: the keys are inserted one by one, and a key that is already
  there keeps its place.
\<close>

definition dict_fromkeys :: "'a list \<Rightarrow> 'a list" where
  "dict_fromkeys xs = foldl (\<lambda>keys k. if k \<in> set keys then keys else keys @ [k]) [] xs"

text \<open>
  The comprehension of lines 186-191: for each requested entry, in order, the available
  estimators that contain it, in registry order.  The test \<open>requested in available\<close> is
  evaluated for every pair, and raises for a left operand that is not a string.
\<close>

fun matches_of :: "pyval \<Rightarrow> string list \<Rightarrow> error + string list" where
  "matches_of r [] = Inr []"
| "matches_of r (a # as) =
     (case py_in_str r a of
        Inl e \<Rightarrow> Inl e
      | Inr b \<Rightarrow> (case matches_of r as of
                    Inl e \<Rightarrow> Inl e
                  | Inr ms \<Rightarrow> Inr (if b then a # ms else ms)))"

fun requested_matches :: "pyval list \<Rightarrow> string list \<Rightarrow> error + string list" where
  "requested_matches [] available = Inr []"
| "requested_matches (r # rs) available =
     (case matches_of r available of
        Inl e \<Rightarrow> Inl e
      | Inr ms \<Rightarrow> (case requested_matches rs available of
                     Inl e \<Rightarrow> Inl e
                   | Inr ms' \<Rightarrow> Inr (ms @ ms')))"

text \<open>
  What \<open>_create_estimator_list\<close> gives back: the warning it emitted, if any, and the list.
\<close>

record resolution =
  warning :: "string option"
  estimators :: "string list"

text \<open>
  \<open>_create_estimator_list\<close> (lines 148-203), on the registry and the value of
  \<open>self._settings["estimator_list"]\<close>.
\<close>

definition create_estimator_list :: "string list \<Rightarrow> pyval \<Rightarrow> error + resolution" where
  "create_estimator_list registry requested =
     (let available = available_estimators registry in
      if requested = PStr ''auto'' \<or> requested = PList [] then
        Inr \<lparr>warning = Some ''No estimators specified, adding all available estimators...'',
             estimators = available\<rparr>
      else if verify_estimator_list requested then
        (case requested of
           PList es \<Rightarrow>
             (case requested_matches es available of
                Inl e \<Rightarrow> Inl e
              | Inr ms \<Rightarrow>
                  (let estimators_to_use = dict_fromkeys ms in
                   if estimators_to_use = [] then
                     Inr \<lparr>warning = Some ''requested estimators not implemented, continuing with defaults'',
                          estimators = available\<rparr>
                   else Inr \<lparr>warning = None, estimators = estimators_to_use\<rparr>))
         | _ \<Rightarrow> Inl TypeError)
      else
        Inr \<lparr>warning = Some ''invalid estimator list requested, continuing with defaults'',
             estimators = available\<rparr>)"

section \<open>The scoring engine (\<open>scoring.py\<close>)\<close>

text \<open>Sequencing of steps that may raise: the first exception ends the computation.\<close>

definition then_do :: "error + 'a \<Rightarrow> ('a \<Rightarrow> error + 'b) \<Rightarrow> error + 'b" where
  "then_do m f = (case m of Inl e \<Rightarrow> Inl e | Inr x \<Rightarrow> f x)"

text \<open>
  Python numbers as the metrics hold them: an \<open>int\<close>, or a float, which is finite (the
  real it denotes), an infinity or \<open>nan\<close>.  No float arithmetic is done by the model
  itself: every float operation belongs to a library and is a parameter below.
\<close>

datatype num = IntN int | FloatN real | PosInf | NegInf | NaN

text \<open>A column of a dataframe, or a one-dimensional array.\<close>

datatype column = Floats "real list" | Bools "bool list"

text \<open>
  What \<open>estimate.estimator\<close> exposes to the scoring functions.  \<open>_treatment_name\<close> is a
  string or a sequence of strings.
\<close>

datatype name_or_names = Name string | Names "string list"

record estimator_info =
  treatment_name :: name_or_names
  effect_modifier_names :: "string list"
  outcome_name :: string

text \<open>
  The pandas operations the scoring functions use, on an opaque frame type \<open>'df\<close>:
  \<open>len(df)\<close>, \<open>df[name]\<close>, \<open>df[[names]]\<close>, \<open>df.reset_index(drop=True)\<close>,
  \<open>df[name] = column\<close>, \<open>df.rename(columns={old: new})\<close> and \<open>pd.DataFrame()\<close>.
\<close>

record 'df pandas =
  df_len :: "'df \<Rightarrow> nat"
  df_getitem :: "'df \<Rightarrow> string \<Rightarrow> error + column"
  df_select :: "'df \<Rightarrow> string list \<Rightarrow> error + 'df"
  df_reset_index :: "'df \<Rightarrow> error + 'df"
  df_setitem :: "'df \<Rightarrow> string \<Rightarrow> column \<Rightarrow> error + 'df"
  df_rename :: "'df \<Rightarrow> string \<Rightarrow> string \<Rightarrow> error + 'df"
  df_new :: "'df"

text \<open>
  The other libraries behind the scoring functions: the tree interpreter of econml
  (\<open>SingleTreeCateInterpreter(...).interpret(DummyEstimator(cate), df)\<close>, giving the fitted
  interpreter \<open>'intrp\<close>), the ERUPT scorer with its prior-only propensity model
  (construction and \<open>fit\<close>, column 1 of \<open>propensity_model.predict_proba\<close>, \<open>weights\<close>,
  \<open>score\<close>), the uplift metrics of causalml, each giving one number per column name, and
  numpy's \<open>np.mean\<close>, a float64 computation that rounds, overflows to an infinity and
  gives \<open>nan\<close> for an empty array.
\<close>

record ('df, 'intrp, 'erupt) scoring_lib =
  pd :: "'df pandas"
  intrp_interpret :: "real list \<Rightarrow> 'df \<Rightarrow> error + 'intrp"
  erupt_fit :: "string \<Rightarrow> string list \<Rightarrow> 'df \<Rightarrow> error + 'erupt"
  predict_proba1 :: "'erupt \<Rightarrow> 'df \<Rightarrow> error + column"
  erupt_weights :: "'erupt \<Rightarrow> 'df \<Rightarrow> bool list \<Rightarrow> error + column"
  erupt_score :: "'erupt \<Rightarrow> 'df \<Rightarrow> column \<Rightarrow> bool list \<Rightarrow> error + num"
  qini_score :: "'df \<Rightarrow> error + num dict"
  auuc_score :: "'df \<Rightarrow> error + num dict"
  np_mean :: "real list \<Rightarrow> num"

text \<open>A reference scorer for the R-score: \<open>r_scorer.score(cate_estimate)\<close>.\<close>

type_synonym scorer = "real list \<Rightarrow> error + num"

text \<open>An entry of the dictionary \<open>make_scores\<close> returns.\<close>

datatype ('df, 'intrp) score_val =
    SNum num
  | SIntrp "('intrp \<times> string list) option"
  | SValues 'df

text \<open>\<open>d[k]\<close> on a dictionary: \<open>KeyError\<close> for a missing key.\<close>

definition getitem :: "'v dict \<Rightarrow> string \<Rightarrow> error + 'v" where
  "getitem d k = (case map_of d k of None \<Rightarrow> Inl KeyError | Some v \<Rightarrow> Inr v)"

text \<open>
  Lines 127-129 (and 46-48, 71-73, 88-90): a treatment name that is not a string is
  replaced by its first element.
\<close>

fun treatment_of :: "name_or_names \<Rightarrow> error + string" where
  "treatment_of (Name s) = Inr s"
| "treatment_of (Names []) = Inl IndexError"
| "treatment_of (Names (s # ss)) = Inr s"

text \<open>\<open>cate_estimate > 0\<close>, elementwise.\<close>

definition positive :: "real list \<Rightarrow> bool list" where
  "positive cate_estimate = map (\<lambda>x. x > 0) cate_estimate"

text \<open>\<open>erupt_make_scores\<close> (lines 42-62).\<close>

definition erupt_make_scores ::
  "('df, 'intrp, 'erupt) scoring_lib \<Rightarrow> estimator_info \<Rightarrow> 'df \<Rightarrow> real list \<Rightarrow> error + num" where
  "erupt_make_scores lib est df cate_estimate =
     then_do (treatment_of (treatment_name est)) (\<lambda>treatment.
     then_do (erupt_fit lib treatment (effect_modifier_names est) df) (\<lambda>erupt.
     then_do (df_getitem (pd lib) df (outcome_name est)) (\<lambda>y.
     erupt_score lib erupt df y (positive cate_estimate))))"

text \<open>
  The frame with columns \<open>y\<close>, \<open>w\<close> and \<open>model\<close> that \<open>qini_make_score\<close> and
  \<open>auc_make_score\<close> both build (lines 69-75 and 86-92).
\<close>

definition uplift_frame ::
  "('df, 'intrp, 'erupt) scoring_lib \<Rightarrow> estimator_info \<Rightarrow> 'df \<Rightarrow> real list \<Rightarrow> error + 'df" where
  "uplift_frame lib est df cate_estimate =
     then_do (df_getitem (pd lib) df (outcome_name est)) (\<lambda>y.
     then_do (df_setitem (pd lib) (df_new (pd lib)) ''y'' y) (\<lambda>new_df.
     then_do (treatment_of (treatment_name est)) (\<lambda>treatment.
     then_do (df_getitem (pd lib) df treatment) (\<lambda>w.
     then_do (df_setitem (pd lib) new_df ''w'' w) (\<lambda>new_df.
     df_setitem (pd lib) new_df ''model'' (Floats cate_estimate))))))"

text \<open>\<open>qini_make_score\<close> (lines 65-79) and \<open>auc_make_score\<close> (lines 82-96).\<close>

definition qini_make_score ::
  "('df, 'intrp, 'erupt) scoring_lib \<Rightarrow> estimator_info \<Rightarrow> 'df \<Rightarrow> real list \<Rightarrow> error + num" where
  "qini_make_score lib est df cate_estimate =
     then_do (uplift_frame lib est df cate_estimate) (\<lambda>new_df.
     then_do (qini_score lib new_df) (\<lambda>qini. getitem qini ''model''))"

definition auc_make_score ::
  "('df, 'intrp, 'erupt) scoring_lib \<Rightarrow> estimator_info \<Rightarrow> 'df \<Rightarrow> real list \<Rightarrow> error + num" where
  "auc_make_score lib est df cate_estimate =
     then_do (uplift_frame lib est df cate_estimate) (\<lambda>new_df.
     then_do (auuc_score lib new_df) (\<lambda>auc. getitem auc ''model''))"

text \<open>\<open>r_make_score\<close> (lines 115-119).\<close>

definition r_make_score :: "real list \<Rightarrow> scorer \<Rightarrow> error + num" where
  "r_make_score cate_estimate r_scorer = r_scorer cate_estimate"

text \<open>
  Lines 131-140: the interpreter is fitted inside \<open>try\<close>, and any exception leaves
  \<open>None\<close>.  On success the interpreter carries the effect-modifier names.
\<close>

definition fit_intrp ::
  "('df, 'intrp, 'erupt) scoring_lib \<Rightarrow> estimator_info \<Rightarrow> 'df \<Rightarrow> real list
     \<Rightarrow> ('intrp \<times> string list) option" where
  "fit_intrp lib est df cate_estimate =
     (case intrp_interpret lib cate_estimate df of
        Inl e \<Rightarrow> None
      | Inr intrp \<Rightarrow> Some (intrp, effect_modifier_names est))"

text \<open>Lines 143-154: the per-row table, before the assertion of line 156.\<close>

definition values_table ::
  "('df, 'intrp, 'erupt) scoring_lib \<Rightarrow> estimator_info \<Rightarrow> string \<Rightarrow> 'df \<Rightarrow> real list \<Rightarrow> error + 'df" where
  "values_table lib est treatment df cate_estimate =
     then_do (erupt_fit lib treatment (effect_modifier_names est) df) (\<lambda>erupt.
     then_do (df_select (pd lib) df [treatment, outcome_name est]) (\<lambda>selected.
     then_do (df_reset_index (pd lib) selected) (\<lambda>values.
     then_do (predict_proba1 lib erupt df) (\<lambda>p.
     then_do (df_setitem (pd lib) values ''p'' p) (\<lambda>values.
     then_do (df_setitem (pd lib) values ''policy'' (Bools (positive cate_estimate))) (\<lambda>values.
     then_do (erupt_weights lib erupt df (positive cate_estimate)) (\<lambda>weights.
     then_do (df_setitem (pd lib) values ''weights'' weights) (\<lambda>values.
     df_rename (pd lib) values treatment ''treated''))))))))"

text \<open>
  \<open>make_scores\<close> (lines 122-168).  The entries of the returned dictionary are evaluated
  in the order they are written.
\<close>

definition make_scores ::
  "('df, 'intrp, 'erupt) scoring_lib \<Rightarrow> estimator_info \<Rightarrow> 'df \<Rightarrow> real list \<Rightarrow> scorer option
     \<Rightarrow> error + ('df, 'intrp) score_val dict" where
  "make_scores lib est df cate_estimate r_scorer =
     then_do (treatment_of (treatment_name est)) (\<lambda>treatment.
     let intrp = fit_intrp lib est df cate_estimate in
     then_do (values_table lib est treatment df cate_estimate) (\<lambda>values.
     if df_len (pd lib) values \<noteq> df_len (pd lib) df then Inl AssertionError
     else
     then_do (erupt_make_scores lib est df cate_estimate) (\<lambda>erupt.
     then_do (qini_make_score lib est df cate_estimate) (\<lambda>qini.
     then_do (auc_make_score lib est df cate_estimate) (\<lambda>auc.
     then_do (case r_scorer of
                None \<Rightarrow> Inr (IntN 0)
              | Some scorer \<Rightarrow> r_make_score cate_estimate scorer) (\<lambda>r_score.
     Inr [(''erupt'', SNum erupt),
          (''qini'', SNum qini),
          (''auc'', SNum auc),
          (''r_score'', SNum r_score),
          (''ate'', SNum (np_mean lib cate_estimate)),
          (''intrp'', SIntrp intrp),
          (''values'', SValues values)]))))))"

section \<open>The search orchestrator (\<open>optimiser.py\<close>)\<close>

subsection \<open>Dictionaries\<close>

text \<open>\<open>d[k] = v\<close>: a key that is there keeps its place, a new key goes last.\<close>

definition setitem :: "'v dict \<Rightarrow> string \<Rightarrow> 'v \<Rightarrow> 'v dict" where
  "setitem d k v = AList.update k v d"

text \<open>\<open>{**a, **b}\<close>: the entries of \<open>b\<close> are stored into a copy of \<open>a\<close>, in order.\<close>

definition dict_merge :: "'v dict \<Rightarrow> 'v dict \<Rightarrow> 'v dict" where
  "dict_merge a b = foldl (\<lambda>d (k, v). setitem d k v) a b"

text \<open>\<open>d.pop(k)\<close>: the value and the dictionary without the key; \<open>KeyError\<close> if missing.\<close>

definition pop :: "'v dict \<Rightarrow> string \<Rightarrow> error + ('v \<times> 'v dict)" where
  "pop d k = (case map_of d k of
                None \<Rightarrow> Inl KeyError
              | Some v \<Rightarrow> Inr (v, AList.delete k d))"

text \<open>Reading an attribute that may not have been set yet.\<close>

definition attr :: "'a option \<Rightarrow> error + 'a" where
  "attr a = (case a of None \<Rightarrow> Inl AttributeError | Some v \<Rightarrow> Inr v)"

subsection \<open>Data\<close>

text \<open>What \<open>self.cfg.method_params(name)\<close> gives for an estimator.\<close>

record estimator_cfg =
  init_params :: "pyval dict"
  search_space :: "pyval dict"

text \<open>The dictionary \<open>_compute_metrics\<close> returns.\<close>

record ('df, 'intrp) metrics =
  m_estimator_name :: string
  m_train :: "('df, 'intrp) score_val dict"
  m_test :: "('df, 'intrp) score_val dict"

text \<open>
  A value of a trial's result dictionary, or of \<open>self.scores\<close>, \<open>self.estimates\<close> and
  \<open>self.full_scores\<close>: a number, a fitted estimate, the nested scores, or \<open>None\<close>.
  What else a tuner adds to a trial's \<open>last_result\<close> (its configuration, timings) is
  never read by the search and is left out.
\<close>

datatype ('df, 'intrp, 'est) result_val =
    RNum num
  | REstimator 'est
  | RScores "('df, 'intrp) metrics"
  | RNone

type_synonym ('df, 'intrp, 'est) trial_result = "('df, 'intrp, 'est) result_val dict"

text \<open>\<open>self._settings["tuner"]\<close> and the settings the search reads.\<close>

record tuner_settings =
  time_budget_s :: num
  num_samples :: int
  verbose :: int
  use_ray :: bool

record settings =
  tuner :: tuner_settings
  metric :: string
  metrics_to_report :: "string list"
  train_size :: real
  test_size :: "int option"
  model_save_path :: "string option"

text \<open>\<open>RScoreWrapper\<close>: a reference scorer for each split.\<close>

record r_score_wrapper =
  rs_train :: scorer
  rs_test :: scorer

text \<open>What the tuner returns: \<open>results.best_config\<close> and \<open>results.get_best_trial()\<close>,
  the latter by its \<open>last_result\<close>.\<close>

record ('df, 'intrp, 'est) tune_analysis =
  best_config_of :: "pyval dict option"
  best_trial_of :: "('df, 'intrp, 'est) trial_result option"

text \<open>
  The object \<open>AutoCausality\<close>, by the attributes the search uses.  An attribute that is
  set only later (\<open>train_df\<close>, \<open>estimator_name\<close>, ...) is \<open>None\<close> until then.
\<close>

record ('df, 'cm, 'ie, 'intrp, 'est) auto_causality =
  settings_of :: settings
  estimates :: "('df, 'intrp, 'est) result_val dict"
  scores :: "('df, 'intrp, 'est) result_val dict"
  full_scores :: "('df, 'intrp, 'est) result_val dict"
  estimator_list :: "string list"
  data_df :: "'df"
  causal_model :: "'cm option"
  identified_estimand :: "'ie option"
  trained_estimators_dict :: "'est dict"
  train_df :: "'df option"
  test_df :: "'df option"
  r_scorer :: "r_score_wrapper option"
  tune_results :: "pyval dict option dict"
  estimator_name :: "string option"
  estimator_cfg :: "estimator_cfg option"

text \<open>
  The collaborators of the search that are not part of the sources: the parameter
  registry (\<open>cfg.method_params\<close>), \<open>clean_config\<close>, sklearn's split, dowhy's causal model
  with \<open>identify_effect\<close> and \<open>estimate_effect\<close>, the accessors of a fitted estimate,
  the reference scorer, flaml's \<open>tune.run\<close> (which is handed the trial function), and the
  file system.
\<close>

record ('df, 'cm, 'ie, 'intrp, 'est, 'erupt) search_lib =
  scoring :: "('df, 'intrp, 'erupt) scoring_lib"
  method_params :: "string \<Rightarrow> error + estimator_cfg"
  clean_config :: "pyval dict \<Rightarrow> error + pyval dict"
  train_test_split :: "'df \<Rightarrow> real \<Rightarrow> error + ('df \<times> 'df)"
  df_sample :: "'df \<Rightarrow> int \<Rightarrow> error + 'df"
  causal_model_new :: "'df \<Rightarrow> string \<Rightarrow> string \<Rightarrow> string list \<Rightarrow> string list \<Rightarrow> error + 'cm"
  identify_effect :: "'cm \<Rightarrow> error + 'ie"
  r_score_wrapper_new ::
    "'df \<Rightarrow> 'df \<Rightarrow> string \<Rightarrow> string \<Rightarrow> string list \<Rightarrow> string list \<Rightarrow> error + r_score_wrapper"
  cm_estimate_effect :: "'cm \<Rightarrow> 'ie option \<Rightarrow> string \<Rightarrow> pyval dict \<Rightarrow> error + 'est"
  estimator_of :: "'est \<Rightarrow> estimator_info"
  cate_estimates :: "'est \<Rightarrow> error + real list"
  effect_inner :: "'est \<Rightarrow> 'df \<Rightarrow> error + real list"
  effect :: "'est \<Rightarrow> 'df \<Rightarrow> error + real list"
  tune_run ::
    "(pyval dict \<Rightarrow> error + ('df, 'intrp, 'est) trial_result) \<Rightarrow> pyval dict \<Rightarrow> string
       \<Rightarrow> tuner_settings \<Rightarrow> error + ('df, 'intrp, 'est) tune_analysis"
  file_open :: "string \<Rightarrow> error + unit"

text \<open>
  What the search does towards its collaborators, in order: a trial started by \<open>fit\<close>
  itself (line 274), a run of the tuner (line 276), and a call of the causal model's
  \<open>estimate_effect\<close> with the method name and the \<open>init_params\<close> it is given (line 351).
  The functions below return these events beside their result.
\<close>

datatype event =
    Trial string "pyval dict"
  | TuneRun string "pyval dict"
  | EstimateEffect string "pyval dict"

fun event_name :: "event \<Rightarrow> string" where
  "event_name (Trial n c) = n"
| "event_name (TuneRun n c) = n"
| "event_name (EstimateEffect n c) = n"

subsection \<open>The trial runner\<close>

text \<open>Lines 376-382 of \<open>_compute_metrics\<close>: the effect predictions on both splits, with
  the fallback of the \<open>except\<close> branch.\<close>

definition treatment_effects ::
  "('df, 'cm, 'ie, 'intrp, 'est, 'erupt) search_lib \<Rightarrow> ('df, 'cm, 'ie, 'intrp, 'est) auto_causality
     \<Rightarrow> 'est \<Rightarrow> error + (real list \<times> real list)" where
  "treatment_effects lib self estimator =
     (case then_do (cate_estimates lib estimator) (\<lambda>te_train.
           then_do (attr (test_df self)) (\<lambda>test.
           then_do (df_select (pd (scoring lib)) test
                      (effect_modifier_names (estimator_of lib estimator))) (\<lambda>X_test.
           then_do (effect_inner lib estimator X_test) (\<lambda>te_test.
           Inr (te_train, te_test))))) of
        Inr tes \<Rightarrow> Inr tes
      | Inl e \<Rightarrow>
          then_do (attr (train_df self)) (\<lambda>train.
          then_do (effect lib estimator train) (\<lambda>te_train.
          then_do (attr (test_df self)) (\<lambda>test.
          then_do (effect lib estimator test) (\<lambda>te_test.
          Inr (te_train, te_test))))))"

text \<open>\<open>_compute_metrics\<close> (lines 374-399).\<close>

definition compute_metrics ::
  "('df, 'cm, 'ie, 'intrp, 'est, 'erupt) search_lib \<Rightarrow> ('df, 'cm, 'ie, 'intrp, 'est) auto_causality
     \<Rightarrow> 'est \<Rightarrow> error + ('df, 'intrp) metrics" where
  "compute_metrics lib self estimator =
     then_do (treatment_effects lib self estimator) (\<lambda>(te_train, te_test).
     then_do (attr (estimator_name self)) (\<lambda>name.
     then_do (attr (train_df self)) (\<lambda>train.
     then_do (attr (r_scorer self)) (\<lambda>r.
     then_do (make_scores (scoring lib) (estimator_of lib estimator) train te_train
                (Some (rs_train r))) (\<lambda>s_train.
     then_do (attr (test_df self)) (\<lambda>test.
     then_do (make_scores (scoring lib) (estimator_of lib estimator) test te_test
                (Some (rs_test r))) (\<lambda>s_test.
     Inr \<lparr>m_estimator_name = name, m_train = s_train, m_test = s_test\<rparr>)))))))"

text \<open>\<open>float(v)\<close> on an entry of the score dictionary.\<close>

fun py_float :: "('df, 'intrp) score_val \<Rightarrow> error + num" where
  "py_float (SNum (IntN i)) = Inr (FloatN (real_of_int i))"
| "py_float (SNum (FloatN x)) = Inr (FloatN x)"
| "py_float (SNum PosInf) = Inr PosInf"
| "py_float (SNum NegInf) = Inr NegInf"
| "py_float (SNum NaN) = Inr NaN"
| "py_float (SIntrp i) = Inl TypeError"
| "py_float (SValues v) = Inl TypeError"

text \<open>Lines 364-368: \<open>{k: float(scores["train"][k]) for k in ...}\<close>, built key by key.\<close>

fun flat_results ::
  "('df, 'intrp) score_val dict \<Rightarrow> string list \<Rightarrow> ('df, 'intrp, 'est) trial_result
     \<Rightarrow> error + ('df, 'intrp, 'est) trial_result" where
  "flat_results train [] acc = Inr acc"
| "flat_results train (k # ks) acc =
     then_do (getitem train k) (\<lambda>v.
     then_do (py_float v) (\<lambda>x.
     flat_results train ks (setitem acc k (RNum x))))"

text \<open>
  \<open>_estimate_effect\<close> (lines 338-372).  The constant arguments of the call of line 351
  (control value 0, treatment value 1, target units \<open>ate\<close>, no confidence intervals, empty
  \<open>fit_params\<close>) are not recorded in the event.
\<close>

definition estimate_effect ::
  "('df, 'cm, 'ie, 'intrp, 'est, 'erupt) search_lib \<Rightarrow> ('df, 'cm, 'ie, 'intrp, 'est) auto_causality
     \<Rightarrow> pyval dict \<Rightarrow> event list \<times> (error + ('df, 'intrp, 'est) trial_result)" where
  "estimate_effect lib self config =
     (case clean_config lib config of
        Inl e \<Rightarrow> ([], Inl e)
      | Inr config \<Rightarrow>
     (case estimator_cfg self of
        None \<Rightarrow> ([], Inl AttributeError)
      | Some cfg \<Rightarrow>
     (let params_to_tune = dict_merge (init_params cfg) config in
      case estimator_name self of
        None \<Rightarrow> ([], Inl AttributeError)
      | Some name \<Rightarrow>
     (case causal_model self of
        None \<Rightarrow> ([], Inl AttributeError)
      | Some cm \<Rightarrow>
          ([EstimateEffect name params_to_tune],
           then_do (cm_estimate_effect lib cm (identified_estimand self) name params_to_tune)
             (\<lambda>estimate.
           then_do (compute_metrics lib self estimate) (\<lambda>scores.
           then_do (flat_results (m_train scores)
                      (metric (settings_of self) # metrics_to_report (settings_of self)) [])
             (\<lambda>flat.
           Inr (dict_merge flat
                  [(''estimator'', REstimator estimate), (''scores'', RScores scores)])))))))))"

text \<open>
  \<open>_tune_with_config\<close> (lines 313-336): the trial runs in a worker process, so only its
  result comes back.
\<close>

definition tune_with_config ::
  "('df, 'cm, 'ie, 'intrp, 'est, 'erupt) search_lib \<Rightarrow> ('df, 'cm, 'ie, 'intrp, 'est) auto_causality
     \<Rightarrow> pyval dict \<Rightarrow> error + ('df, 'intrp, 'est) trial_result" where
  "tune_with_config lib self config = snd (estimate_effect lib self config)"

subsection \<open>\<open>fit\<close>\<close>

text \<open>Lines 302-305: each reported metric is looked up and printed with \<open>:6f\<close>.\<close>

fun report :: "('df, 'intrp, 'est) trial_result \<Rightarrow> string list \<Rightarrow> error option" where
  "report last_result [] = None"
| "report last_result (m # ms) =
     (case getitem last_result m of
        Inl e \<Rightarrow> Some e
      | Inr (RNum x) \<Rightarrow> report last_result ms
      | Inr _ \<Rightarrow> Some TypeError)"

text \<open>
  Lines 296-305: the bookkeeping for the result of an estimator's best (or only) trial.
  An exception leaves the attributes as they were changed so far.
\<close>

definition record_result ::
  "('df, 'cm, 'ie, 'intrp, 'est) auto_causality \<Rightarrow> string \<Rightarrow> ('df, 'intrp, 'est) trial_result
     \<Rightarrow> error option \<times> ('df, 'cm, 'ie, 'intrp, 'est) auto_causality" where
  "record_result self name last_result =
     (case pop last_result ''estimator'' of
        Inl e \<Rightarrow> (Some e, self)
      | Inr (estimate, last_result) \<Rightarrow>
     (let self = self\<lparr>estimates := setitem (estimates self) name estimate\<rparr> in
      case pop last_result ''scores'' of
        Inl e \<Rightarrow> (Some e, self)
      | Inr (full, last_result) \<Rightarrow>
     (let self = self\<lparr>full_scores := setitem (full_scores self) name full\<rparr> in
      case getitem last_result (metric (settings_of self)) of
        Inl e \<Rightarrow> (Some e, self)
      | Inr score \<Rightarrow>
     (let self = self\<lparr>scores := setitem (scores self) name score\<rparr> in
      if verbose (tuner (settings_of self)) > 0
      then (report last_result (metric (settings_of self) # metrics_to_report (settings_of self)),
            self)
      else (None, self)))))"

text \<open>The body of the loop of \<open>fit\<close> (lines 269-305), for one estimator.\<close>

definition fit_step ::
  "('df, 'cm, 'ie, 'intrp, 'est, 'erupt) search_lib \<Rightarrow> string
     \<Rightarrow> ('df, 'cm, 'ie, 'intrp, 'est) auto_causality
     \<Rightarrow> event list \<times> error option \<times> ('df, 'cm, 'ie, 'intrp, 'est) auto_causality" where
  "fit_step lib name self =
     (let self = self\<lparr>estimator_name := Some name\<rparr> in
      case method_params lib name of
        Inl e \<Rightarrow> ([], Some e, self)
      | Inr cfg \<Rightarrow>
     (let self = self\<lparr>estimator_cfg := Some cfg\<rparr> in
      if search_space cfg = [] then
        (let self = self\<lparr>tune_results := setitem (tune_results self) name (Some [])\<rparr> in
         case estimate_effect lib self (init_params cfg) of
           (evs, Inl e) \<Rightarrow> (Trial name (init_params cfg) # evs, Some e, self)
         | (evs, Inr last_result) \<Rightarrow>
             (case record_result self name last_result of
                (err, self) \<Rightarrow> (Trial name (init_params cfg) # evs, err, self)))
      else
        (case tune_run lib (tune_with_config lib self) (search_space cfg)
                (metric (settings_of self)) (tuner (settings_of self)) of
           Inl e \<Rightarrow> ([TuneRun name (search_space cfg)], Some e, self)
         | Inr results \<Rightarrow>
        (let self = self\<lparr>tune_results :=
                           setitem (tune_results self) name (best_config_of results)\<rparr> in
         case best_trial_of results of
           None \<Rightarrow>
             ([TuneRun name (search_space cfg)], None,
              self\<lparr>scores := setitem (scores self) name RNone\<rparr>)
         | Some last_result \<Rightarrow>
             (case record_result self name last_result of
                (err, self) \<Rightarrow> ([TuneRun name (search_space cfg)], err, self))))))"

text \<open>The loop of line 268: an exception ends it, \<open>continue\<close> and the normal end of
  the body go on with the next estimator.\<close>

fun fit_loop ::
  "('df, 'cm, 'ie, 'intrp, 'est, 'erupt) search_lib \<Rightarrow> string list
     \<Rightarrow> ('df, 'cm, 'ie, 'intrp, 'est) auto_causality
     \<Rightarrow> event list \<times> error option \<times> ('df, 'cm, 'ie, 'intrp, 'est) auto_causality" where
  "fit_loop lib [] self = ([], None, self)"
| "fit_loop lib (name # names) self =
     (case fit_step lib name self of
        (evs, Some e, self) \<Rightarrow> (evs, Some e, self)
      | (evs, None, self) \<Rightarrow>
          (case fit_loop lib names self of
             (evs', err, self) \<Rightarrow> (evs @ evs', err, self)))"

text \<open>\<open>best_model_for_estimator\<close> (lines 411-423).\<close>

definition best_model_for_estimator ::
  "('df, 'cm, 'ie, 'intrp, 'est) auto_causality \<Rightarrow> string \<Rightarrow> error + 'est" where
  "best_model_for_estimator self name = getitem (trained_estimators_dict self) name"

text \<open>
  Lines 306-309: with a save path, a file is opened for the first estimator and its model
  is looked up; \<open>pickle.dump\<close> is then called without its file argument.  The file name is
  reduced to the path and the estimator's name (the time budget and the time stamp are
  left out).  Line 308 nests single quotes in an f-string, which Python accepts from
  version 3.12 on.
\<close>

definition save_models ::
  "('df, 'cm, 'ie, 'intrp, 'est, 'erupt) search_lib \<Rightarrow> ('df, 'cm, 'ie, 'intrp, 'est) auto_causality
     \<Rightarrow> error + unit" where
  "save_models lib self =
     (case model_save_path (settings_of self) of
        None \<Rightarrow> Inr ()
      | Some path \<Rightarrow>
          if path = [] then Inr ()
          else (case estimator_list self of
                  [] \<Rightarrow> Inr ()
                | name # names \<Rightarrow>
                    then_do (file_open lib (path @ name)) (\<lambda>handle.
                    then_do (best_model_for_estimator self name) (\<lambda>model.
                    Inl TypeError))))"

text \<open>\<open>fit\<close> (lines 215-309).\<close>

definition fit ::
  "('df, 'cm, 'ie, 'intrp, 'est, 'erupt) search_lib \<Rightarrow> 'df \<Rightarrow> string \<Rightarrow> string \<Rightarrow> string list
     \<Rightarrow> string list \<Rightarrow> ('df, 'cm, 'ie, 'intrp, 'est) auto_causality
     \<Rightarrow> event list \<times> error option \<times> ('df, 'cm, 'ie, 'intrp, 'est) auto_causality" where
  "fit lib data treatment outcome common_causes effect_modifiers self =
     (let self = self\<lparr>data_df := data\<rparr> in
      case train_test_split lib data (train_size (settings_of self)) of
        Inl e \<Rightarrow> ([], Some e, self)
      | Inr (train, test) \<Rightarrow>
     (let self = self\<lparr>train_df := Some train, test_df := Some test\<rparr> in
      case (case test_size (settings_of self) of
              None \<Rightarrow> Inr test
            | Some n \<Rightarrow> df_sample lib test n) of
        Inl e \<Rightarrow> ([], Some e, self)
      | Inr test \<Rightarrow>
     (let self = self\<lparr>test_df := Some test\<rparr> in
      case causal_model_new lib train treatment outcome common_causes effect_modifiers of
        Inl e \<Rightarrow> ([], Some e, self)
      | Inr cm \<Rightarrow>
     (let self = self\<lparr>causal_model := Some cm\<rparr> in
      case identify_effect lib cm of
        Inl e \<Rightarrow> ([], Some e, self)
      | Inr ie \<Rightarrow>
     (let self = self\<lparr>identified_estimand := Some ie\<rparr> in
      case r_score_wrapper_new lib train test outcome treatment common_causes effect_modifiers of
        Inl e \<Rightarrow> ([], Some e, self)
      | Inr r \<Rightarrow>
     (let self = self\<lparr>r_scorer := Some r, tune_results := []\<rparr> in
      case fit_loop lib (estimator_list self) self of
        (evs, Some e, self) \<Rightarrow> (evs, Some e, self)
      | (evs, None, self) \<Rightarrow>
          (case save_models lib self of
             Inl e \<Rightarrow> (evs, Some e, self)
           | Inr u \<Rightarrow> (evs, None, self))))))))"

subsection \<open>Results\<close>

text \<open>
  Python's \<open>a > b\<close> on two numbers: false whenever one of them is \<open>nan\<close>; the positive
  infinity is greater than everything but itself, and everything but the negative
  infinity is greater than it.
\<close>

fun num_real :: "num \<Rightarrow> real option" where
  "num_real (IntN i) = Some (real_of_int i)"
| "num_real (FloatN x) = Some x"
| "num_real PosInf = None"
| "num_real NegInf = None"
| "num_real NaN = None"

fun num_gt :: "num \<Rightarrow> num \<Rightarrow> bool" where
  "num_gt NaN b = False"
| "num_gt a NaN = False"
| "num_gt PosInf b = (b \<noteq> PosInf)"
| "num_gt a PosInf = False"
| "num_gt NegInf b = False"
| "num_gt a NegInf = True"
| "num_gt a b = (case (num_real a, num_real b) of
                   (Some x, Some y) \<Rightarrow> x > y
                 | _ \<Rightarrow> False)"

text \<open>\<open>a > b\<close> on two stored scores: only numbers compare, anything else (\<open>None\<close>, an
  estimate, a dictionary) raises \<open>TypeError\<close>.\<close>

fun py_gt ::
  "('df, 'intrp, 'est) result_val \<Rightarrow> ('df, 'intrp, 'est) result_val \<Rightarrow> error + bool" where
  "py_gt (RNum a) (RNum b) = Inr (num_gt a b)"
| "py_gt _ _ = Inl TypeError"

text \<open>
  \<open>max(d, key=d.get)\<close> after its first item: the keys are visited in insertion order, and
  a key replaces the current maximum only if its value is strictly greater.
\<close>

fun max_scan ::
  "string \<times> ('df, 'intrp, 'est) result_val \<Rightarrow> ('df, 'intrp, 'est) result_val dict
     \<Rightarrow> error + string" where
  "max_scan (k, v) [] = Inr k"
| "max_scan (k, v) ((k', v') # rest) =
     then_do (py_gt v' v) (\<lambda>greater.
     if greater then max_scan (k', v') rest else max_scan (k, v) rest)"

text \<open>\<open>best_estimator\<close> (lines 401-404); \<open>max\<close> of an empty dictionary raises
  \<open>ValueError\<close>.\<close>

definition best_estimator :: "('df, 'cm, 'ie, 'intrp, 'est) auto_causality \<Rightarrow> error + string" where
  "best_estimator self =
     (case scores self of
        [] \<Rightarrow> Inl ValueError
      | first # rest \<Rightarrow> max_scan first rest)"

text \<open>\<open>best_config_per_estimator\<close> (lines 430-437).\<close>

definition best_config_per_estimator ::
  "('df, 'cm, 'ie, 'intrp, 'est) auto_causality \<Rightarrow> pyval dict option dict" where
  "best_config_per_estimator self =
     foldl (\<lambda>d estimator.
              case map_of (tune_results self) estimator of
                None \<Rightarrow> d
              | Some config \<Rightarrow> setitem d estimator config)
       [] (estimator_list self)"

text \<open>\<open>best_score_per_estimator\<close> (lines 439-442), \<open>best_score\<close> (lines 444-447),
  \<open>best_config\<close> (lines 425-428) and \<open>model\<close> (lines 406-409).\<close>

definition best_score_per_estimator ::
  "('df, 'cm, 'ie, 'intrp, 'est) auto_causality \<Rightarrow> ('df, 'intrp, 'est) result_val dict" where
  "best_score_per_estimator self = scores self"

definition best_score ::
  "('df, 'cm, 'ie, 'intrp, 'est) auto_causality \<Rightarrow> error + ('df, 'intrp, 'est) result_val" where
  "best_score self = then_do (best_estimator self) (getitem (scores self))"

definition best_config ::
  "('df, 'cm, 'ie, 'intrp, 'est) auto_causality \<Rightarrow> error + pyval dict option" where
  "best_config self = then_do (best_estimator self) (getitem (best_config_per_estimator self))"

definition model :: "('df, 'cm, 'ie, 'intrp, 'est) auto_causality \<Rightarrow> error + 'est" where
  "model self = then_do (best_estimator self) (best_model_for_estimator self)"

section \<open>Notions of the specification\<close>


text \<open>A mapping of best scores in which every estimator completed with a float.\<close>

definition float_scores :: "(string \<times> real) list \<Rightarrow> ('df, 'intrp, 'est) result_val dict" where
  "float_scores kxs = map (\<lambda>(k, x). (k, RNum (FloatN x))) kxs"

text \<open>
  Position \<open>i\<close> holds the first maximum of the scores: no score is greater, and every
  earlier score is strictly smaller.
\<close>

definition first_maximum :: "(string \<times> real) list \<Rightarrow> nat \<Rightarrow> bool" where
  "first_maximum kxs i \<longleftrightarrow>
     i < length kxs
     \<and> (\<forall>j<length kxs. snd (kxs ! j) \<le> snd (kxs ! i))
     \<and> (\<forall>j<i. snd (kxs ! j) < snd (kxs ! i))"

section \<open>Sample collaborators\<close>

text \<open>
  Concrete collaborators on which the theorems below are instantiated.  A frame is the
  list of its rows, each a pair of treatment and outcome; added columns are dropped.
\<close>

type_synonym rows = "(real \<times> real) list"

definition rows_pandas :: "rows pandas" where
  "rows_pandas =
     \<lparr>df_len = length,
      df_getitem = (\<lambda>df k. if k = ''treatment'' then Inr (Floats (map fst df))
                           else if k = ''outcome'' then Inr (Floats (map snd df))
                           else Inl KeyError),
      df_select = (\<lambda>df ks. Inr df),
      df_reset_index = Inr,
      df_setitem = (\<lambda>df k c. Inr df),
      df_rename = (\<lambda>df old new. Inr df),
      df_new = []\<rparr>"

text \<open>
  The tree interpreter refuses a frame of fewer than ten rows.  \<open>np.mean\<close> is given by
  the float64 results numpy has on the vectors used below: \<open>nan\<close> for the empty array;
  for \<open>[1, 2^53]\<close> the sum \<open>2^53 + 1\<close> is not a float64 and is rounded to \<open>2^53\<close>, half
  of which is \<open>2^52\<close>; on \<open>[2, -1]\<close> the sum and the quotient are exact.  The last
  branch is not used.
\<close>

definition rows_scoring :: "(rows, unit, unit) scoring_lib" where
  "rows_scoring =
     \<lparr>pd = rows_pandas,
      intrp_interpret = (\<lambda>cate df. if length df < 10 then Inl ValueError else Inr ()),
      erupt_fit = (\<lambda>treatment xs df. Inr ()),
      predict_proba1 = (\<lambda>erupt df. Inr (Floats (map (\<lambda>r. 1 / 2) df))),
      erupt_weights = (\<lambda>erupt df policy. Inr (Floats (map (\<lambda>b. if b then 2 else 0) policy))),
      erupt_score = (\<lambda>erupt df y policy. Inr (FloatN 1)),
      qini_score = (\<lambda>df. Inr [(''model'', FloatN 0)]),
      auuc_score = (\<lambda>df. Inr [(''model'', FloatN (1 / 2))]),
      np_mean = (\<lambda>xs. if xs = [] then NaN
                     else if xs = [1, 9007199254740992] then FloatN 4503599627370496
                     else FloatN (sum_list xs / real (length xs)))\<rparr>"

text \<open>The same, on a pandas whose \<open>reset_index\<close> loses the first row.\<close>

definition lossy_scoring :: "(rows, unit, unit) scoring_lib" where
  "lossy_scoring = rows_scoring\<lparr>pd := rows_pandas\<lparr>df_reset_index := \<lambda>df. Inr (tl df)\<rparr>\<rparr>"

definition two_rows :: rows where
  "two_rows = [(0, 3), (1, 5)]"

definition plain_estimator :: estimator_info where
  "plain_estimator =
     \<lparr>treatment_name = Name ''treatment'', effect_modifier_names = [],
      outcome_name = ''outcome''\<rparr>"

definition sample_registry :: "string list" where
  "sample_registry =
     [''backdoor.econml.dml.LinearDML'', ''backdoor.econml.dml.SparseLinearDML'',
      ''backdoor.econml.metalearners.SLearner'', ''backdoor.propensity_score_weighting'']"

text \<open>What the scoring engine gives for the two rows and the predictions \<open>[2, -1]\<close>.\<close>

definition two_rows_scores :: "(rows, unit) score_val dict" where
  "two_rows_scores =
     [(''erupt'', SNum (FloatN 1)), (''qini'', SNum (FloatN 0)),
      (''auc'', SNum (FloatN (1 / 2))), (''r_score'', SNum (IntN 0)),
      (''ate'', SNum (FloatN (1 / 2))), (''intrp'', SIntrp None),
      (''values'', SValues [(0, 3), (1, 5)])]"

text \<open>
  A search over two estimators: \<open>SLearner\<close> has an empty search space, \<open>LinearDML\<close> has
  one, and the tuner finds no successful trial for it.
\<close>

definition fixed_cfg :: estimator_cfg where
  "fixed_cfg = \<lparr>init_params = [(''alpha'', PInt 1), (''intercept'', PBool True)], search_space = []\<rparr>"

definition tuned_cfg :: estimator_cfg where
  "tuned_cfg = \<lparr>init_params = [(''alpha'', PInt 1), (''intercept'', PBool True)],
                 search_space = [(''alpha'', PObj ''uniform'')]\<rparr>"

definition sample_lib :: "(rows, unit, unit, unit, unit, unit) search_lib" where
  "sample_lib =
     \<lparr>scoring = rows_scoring,
      method_params = (\<lambda>name. if name = ''SLearner'' then Inr fixed_cfg
                              else if name = ''LinearDML'' then Inr tuned_cfg
                              else Inl KeyError),
      clean_config = Inr,
      train_test_split = (\<lambda>df size. Inr (df, df)),
      df_sample = (\<lambda>df n. Inr df),
      causal_model_new = (\<lambda>df t y w x. Inr ()),
      identify_effect = (\<lambda>cm. Inr ()),
      r_score_wrapper_new = (\<lambda>train test y t w x.
         Inr \<lparr>rs_train = (\<lambda>cate. Inr (FloatN 0)), rs_test = (\<lambda>cate. Inr (FloatN 0))\<rparr>),
      cm_estimate_effect = (\<lambda>cm ie name params. Inr ()),
      estimator_of = (\<lambda>e. plain_estimator),
      cate_estimates = (\<lambda>e. Inr [2, -1]),
      effect_inner = (\<lambda>e df. Inr [2, -1]),
      effect = (\<lambda>e df. Inr [2, -1]),
      tune_run = (\<lambda>trial space metric ts. Inr \<lparr>best_config_of = None, best_trial_of = None\<rparr>),
      file_open = (\<lambda>path. Inr ())\<rparr>"

definition sample_settings :: settings where
  "sample_settings =
     \<lparr>tuner = \<lparr>time_budget_s = IntN 60, num_samples = 10, verbose = 3, use_ray = False\<rparr>,
      metric = ''erupt'',
      metrics_to_report = [''qini'', ''auc'', ''ate'', ''r_score''],
      train_size = 4 / 5,
      test_size = None,
      model_save_path = None\<rparr>"

definition sample_self :: "(rows, unit, unit, unit, unit) auto_causality" where
  "sample_self =
     \<lparr>settings_of = sample_settings,
      estimates = [], scores = [], full_scores = [],
      estimator_list = [''SLearner'', ''LinearDML''],
      data_df = [],
      causal_model = None, identified_estimand = None,
      trained_estimators_dict = [],
      train_df = None, test_df = None, r_scorer = None,
      tune_results = [],
      estimator_name = None, estimator_cfg = None\<rparr>"

definition sample_r_scorer :: r_score_wrapper where
  "sample_r_scorer = \<lparr>rs_train = (\<lambda>cate. Inr (FloatN 0)), rs_test = (\<lambda>cate. Inr (FloatN 0))\<rparr>"

definition two_rows_scored :: "(rows, unit) score_val dict" where
  "two_rows_scored =
     [(''erupt'', SNum (FloatN 1)), (''qini'', SNum (FloatN 0)),
      (''auc'', SNum (FloatN (1 / 2))), (''r_score'', SNum (FloatN 0)),
      (''ate'', SNum (FloatN (1 / 2))), (''intrp'', SIntrp None),
      (''values'', SValues [(0, 3), (1, 5)])]"

definition sample_metrics :: "string \<Rightarrow> (rows, unit) metrics" where
  "sample_metrics name =
     \<lparr>m_estimator_name = name, m_train = two_rows_scored, m_test = two_rows_scored\<rparr>"

definition sample_result :: "string \<Rightarrow> (rows, unit, unit) trial_result" where
  "sample_result name =
     [(''erupt'', RNum (FloatN 1)), (''qini'', RNum (FloatN 0)),
      (''auc'', RNum (FloatN (1 / 2))), (''ate'', RNum (FloatN (1 / 2))),
      (''r_score'', RNum (FloatN 0)), (''estimator'', REstimator ()),
      (''scores'', RScores (sample_metrics name))]"

definition sample_fitted :: "(rows, unit, unit, unit, unit) auto_causality" where
  "sample_fitted =
     \<lparr>settings_of = sample_settings,
      estimates = [(''SLearner'', REstimator ())],
      scores = [(''SLearner'', RNum (FloatN 1)), (''LinearDML'', RNone)],
      full_scores = [(''SLearner'', RScores (sample_metrics ''SLearner''))],
      estimator_list = [''SLearner'', ''LinearDML''],
      data_df = two_rows,
      causal_model = Some (), identified_estimand = Some (),
      trained_estimators_dict = [],
      train_df = Some two_rows, test_df = Some two_rows, r_scorer = Some sample_r_scorer,
      tune_results = [(''SLearner'', Some []), (''LinearDML'', None)],
      estimator_name = Some ''LinearDML'', estimator_cfg = Some tuned_cfg\<rparr>"

definition sample_events :: "event list" where
  "sample_events =
     [Trial ''SLearner'' [(''alpha'', PInt 1), (''intercept'', PBool True)],
      EstimateEffect ''SLearner'' [(''alpha'', PInt 1), (''intercept'', PBool True)],
      TuneRun ''LinearDML'' [(''alpha'', PObj ''uniform'')]]"


section \<open>Properties of estimator-list resolution\<close>


lemma matches_of_str: "matches_of (PStr s) av = Inr (filter (str_in s) av)"
  by (induction av) auto

lemma requested_matches_strs:
  "requested_matches (map PStr rs) av = Inr (concat (map (\<lambda>r. filter (str_in r) av) rs))"
  by (induction rs) (auto simp: matches_of_str)

lemma dict_fromkeys_Nil: "dict_fromkeys [] = []"
  by (simp add: dict_fromkeys_def)

lemma dict_fromkeys_snoc:
  "dict_fromkeys (xs @ [x]) =
     (if x \<in> set (dict_fromkeys xs) then dict_fromkeys xs else dict_fromkeys xs @ [x])"
  by (simp add: dict_fromkeys_def)

lemma set_dict_fromkeys: "set (dict_fromkeys xs) = set xs"
  by (induction xs rule: rev_induct) (auto simp: dict_fromkeys_snoc dict_fromkeys_Nil)






lemma set_available_estimators: "set (available_estimators registry) \<subseteq> set registry"
  by (auto simp: available_estimators_def)

lemma distinct_available_estimators:
  "distinct registry \<Longrightarrow> distinct (available_estimators registry)"
  by (simp add: available_estimators_def)

lemma available_sample_registry:
  "available_estimators sample_registry =
     [''backdoor.econml.dml.LinearDML'', ''backdoor.econml.dml.SparseLinearDML'',
      ''backdoor.econml.metalearners.SLearner'']"
  by (simp add: available_estimators_def sample_registry_def supported_patterns_def)

text \<open>
  Whatever is requested, the resolved list holds available estimators only, and it has no
  duplicates if the registry has none.
\<close>

lemma create_estimator_list_available:
  assumes "create_estimator_list registry requested = Inr res"
  shows "set (estimators res) \<subseteq> set (available_estimators registry)"
proof (cases "requested = PStr ''auto'' \<or> requested = PList [] \<or> \<not> verify_estimator_list requested")
  case True
  then show ?thesis using assms
    by (auto simp: create_estimator_list_def Let_def split: if_splits)
next
  case False
  then obtain es where es: "requested = PList es" "list_all is_str es"
    by (cases requested) auto
  then have "\<forall>e \<in> set es. \<exists>s. e = PStr s"
    by (auto simp: list_all_iff elim: is_str.elims)
  then obtain rs where rs: "es = map PStr rs"
    by (metis ex_map_conv)
  show ?thesis using assms False
    by (auto simp: create_estimator_list_def Let_def es rs requested_matches_strs
        set_dict_fromkeys split: if_splits)
qed

text \<open>
  C1, as the specification states it, fails: a value of \<open>estimator_list\<close> that is not a
  list (here the number 5), or a list with an entry that is not a string (here the list
  of the repository's own test, ending in 12), is not rejected.  Resolution returns, with
  the warning of line 202 and every available estimator.
\<close>

theorem invalid_estimator_list_counterexample:
  "\<not> verify_estimator_list (PInt 5)
   \<and> PInt 5 \<noteq> PStr ''auto''
   \<and> \<not> isl (create_estimator_list sample_registry (PInt 5))
   \<and> \<not> verify_estimator_list (PList [PStr ''linear_regression'', PStr ''pasta'', PInt 12])
   \<and> create_estimator_list sample_registry
        (PList [PStr ''linear_regression'', PStr ''pasta'', PInt 12])
       = Inr \<lparr>warning = Some ''invalid estimator list requested, continuing with defaults'',
              estimators = [''backdoor.econml.dml.LinearDML'',
                            ''backdoor.econml.dml.SparseLinearDML'',
                            ''backdoor.econml.metalearners.SLearner'']\<rparr>"
  by (simp add: create_estimator_list_def available_sample_registry)

text \<open>
  C1, amended: for every value of \<open>estimator_list\<close> that is structurally invalid (not a
  list, or a list with an entry that is not a string) and is not \<open>"auto"\<close>, resolution
  raises nothing: it warns "invalid estimator list requested, continuing with defaults"
  and returns all available estimators.
\<close>

theorem invalid_estimator_list_defaults:
  assumes "\<not> verify_estimator_list requested" and "requested \<noteq> PStr ''auto''"
  shows "create_estimator_list registry requested =
     Inr \<lparr>warning = Some ''invalid estimator list requested, continuing with defaults'',
          estimators = available_estimators registry\<rparr>"
proof -
  have "requested \<noteq> PList []" using assms(1) by auto
  then show ?thesis using assms by (simp add: create_estimator_list_def Let_def)
qed

theorem invalid_estimator_list_defaults_witness:
  "\<not> verify_estimator_list (PList [PStr ''pasta'', PInt 12])
   \<and> PList [PStr ''pasta'', PInt 12] \<noteq> PStr ''auto''
   \<and> create_estimator_list sample_registry (PList [PStr ''pasta'', PInt 12]) =
       Inr \<lparr>warning = Some ''invalid estimator list requested, continuing with defaults'',
            estimators = [''backdoor.econml.dml.LinearDML'',
                          ''backdoor.econml.dml.SparseLinearDML'',
                          ''backdoor.econml.metalearners.SLearner'']\<rparr>"
  using invalid_estimator_list_defaults
          [of "PList [PStr ''pasta'', PInt 12]" sample_registry]
  by (simp add: available_sample_registry)




section \<open>Properties of the scoring engine\<close>

lemma then_do_Inr_iff: "then_do m f = Inr y \<longleftrightarrow> (\<exists>x. m = Inr x \<and> f x = Inr y)"
  by (cases m) (auto simp: then_do_def)

lemma then_do_simps: "then_do (Inr x) f = f x" "then_do (Inl e) f = Inl e"
  by (simp_all add: then_do_def)

text \<open>What a normal return of \<open>make_scores\<close> says about every step.\<close>

lemma make_scores_Inr:
  assumes "make_scores lib est df cate r = Inr d"
  obtains t v a q u rs where
    "treatment_of (treatment_name est) = Inr t"
    "values_table lib est t df cate = Inr v"
    "df_len (pd lib) v = df_len (pd lib) df"
    "erupt_make_scores lib est df cate = Inr a"
    "qini_make_score lib est df cate = Inr q"
    "auc_make_score lib est df cate = Inr u"
    "(case r of None \<Rightarrow> Inr (IntN 0) | Some scorer \<Rightarrow> r_make_score cate scorer) = Inr rs"
    "d = [(''erupt'', SNum a), (''qini'', SNum q), (''auc'', SNum u), (''r_score'', SNum rs),
          (''ate'', SNum (np_mean lib cate)), (''intrp'', SIntrp (fit_intrp lib est df cate)),
          (''values'', SValues v)]"
  using assms unfolding make_scores_def Let_def
  by (auto simp: then_do_Inr_iff split: if_splits)

lemma fit_intrp_fail:
  "intrp_interpret lib cate df = Inl e \<Longrightarrow> fit_intrp lib est df cate = None"
  by (simp add: fit_intrp_def)

lemma intrp_interpret_update_other:
  "values_table (lib\<lparr>intrp_interpret := f\<rparr>) est t df cate = values_table lib est t df cate"
  "erupt_make_scores (lib\<lparr>intrp_interpret := f\<rparr>) est df cate = erupt_make_scores lib est df cate"
  "qini_make_score (lib\<lparr>intrp_interpret := f\<rparr>) est df cate = qini_make_score lib est df cate"
  "auc_make_score (lib\<lparr>intrp_interpret := f\<rparr>) est df cate = auc_make_score lib est df cate"
  by (simp_all add: values_table_def erupt_make_scores_def qini_make_score_def
      auc_make_score_def uplift_frame_def)

lemmas sample_scoring_defs =
  rows_pandas_def rows_scoring_def lossy_scoring_def two_rows_def plain_estimator_def
  two_rows_scores_def make_scores_def values_table_def fit_intrp_def erupt_make_scores_def
  qini_make_score_def auc_make_score_def uplift_frame_def then_do_def getitem_def
  positive_def r_make_score_def

lemma make_scores_two_rows:
  "make_scores rows_scoring plain_estimator two_rows [2, -1] None = Inr two_rows_scores"
  by (simp add: sample_scoring_defs)

text \<open>
  C4: whenever \<open>make_scores\<close> returns, the \<open>values\<close> entry of its dictionary is the
  per-row table of lines 143-154 (treatment and outcome columns, \<open>p\<close>, \<open>policy\<close> from
  \<open>cate_estimate > 0\<close>, \<open>weights\<close>, the treatment column renamed to \<open>treated\<close>), and it has
  exactly as many rows as the input frame.  Whenever the table is built with another
  number of rows, \<open>make_scores\<close> raises \<open>AssertionError\<close> and returns nothing.
\<close>

theorem diagnostic_table_row_count:
  "(make_scores lib est df cate r = Inr d \<longrightarrow>
      (\<exists>t table. treatment_of (treatment_name est) = Inr t
         \<and> values_table lib est t df cate = Inr table
         \<and> getitem d ''values'' = Inr (SValues table)
         \<and> df_len (pd lib) table = df_len (pd lib) df))
   \<and> (treatment_of (treatment_name est) = Inr t
        \<and> values_table lib est t df cate = Inr table
        \<and> df_len (pd lib) table \<noteq> df_len (pd lib) df \<longrightarrow>
      make_scores lib est df cate r = Inl AssertionError)"
proof (intro conjI impI)
  assume "make_scores lib est df cate r = Inr d"
  then show "\<exists>t table. treatment_of (treatment_name est) = Inr t
         \<and> values_table lib est t df cate = Inr table
         \<and> getitem d ''values'' = Inr (SValues table)
         \<and> df_len (pd lib) table = df_len (pd lib) df"
    by (elim make_scores_Inr) (simp add: getitem_def)
next
  assume "treatment_of (treatment_name est) = Inr t
        \<and> values_table lib est t df cate = Inr table
        \<and> df_len (pd lib) table \<noteq> df_len (pd lib) df"
  then show "make_scores lib est df cate r = Inl AssertionError"
    by (simp add: make_scores_def then_do_simps)
qed

theorem diagnostic_table_row_count_witness:
  "make_scores rows_scoring plain_estimator two_rows [2, -1] None = Inr two_rows_scores
   \<and> getitem two_rows_scores ''values'' = Inr (SValues [(0, 3), (1, 5)])
   \<and> df_len (pd rows_scoring) [(0, 3), (1, 5)] = df_len (pd rows_scoring) two_rows
   \<and> values_table lossy_scoring plain_estimator ''treatment'' two_rows [2, -1] = Inr [(1, 5)]
   \<and> df_len (pd lossy_scoring) [(1, 5)] \<noteq> df_len (pd lossy_scoring) two_rows
   \<and> make_scores lossy_scoring plain_estimator two_rows [2, -1] None = Inl AssertionError"
proof -
  have v: "values_table lossy_scoring plain_estimator ''treatment'' two_rows [2, -1]
             = Inr [(1, 5)]"
    by (simp add: sample_scoring_defs)
  have n: "df_len (pd lossy_scoring) [(1, 5)] \<noteq> df_len (pd lossy_scoring) two_rows"
    by (simp add: sample_scoring_defs)
  have t: "treatment_of (treatment_name plain_estimator) = Inr ''treatment''"
    by (simp add: plain_estimator_def)
  have g: "getitem two_rows_scores ''values'' = Inr (SValues [(0, 3), (1, 5)])"
    by (simp add: two_rows_scores_def getitem_def)
  show ?thesis
    using make_scores_two_rows v n t g
      diagnostic_table_row_count [where lib = rows_scoring and est = plain_estimator
        and df = two_rows and cate = "[2, -1]" and r = None and d = two_rows_scores]
      diagnostic_table_row_count [where lib = lossy_scoring and est = plain_estimator
        and df = two_rows and cate = "[2, -1]" and r = None and t = "''treatment''"
        and table = "[(1, 5)]"]
    by auto
qed

text \<open>
  C6: without a reference scorer (\<open>r_scorer\<close> is \<open>None\<close>), the \<open>r_score\<close> entry of the
  dictionary \<open>make_scores\<close> returns is the integer 0, whatever the other inputs are.
\<close>

theorem r_score_zero_without_scorer:
  "make_scores lib est df cate None = Inr d \<Longrightarrow> getitem d ''r_score'' = Inr (SNum (IntN 0))"
  by (elim make_scores_Inr) (simp add: getitem_def)

theorem r_score_zero_without_scorer_witness:
  "make_scores rows_scoring plain_estimator two_rows [2, -1] None = Inr two_rows_scores
   \<and> getitem two_rows_scores ''r_score'' = Inr (SNum (IntN 0))"
  using make_scores_two_rows
    r_score_zero_without_scorer [OF make_scores_two_rows]
  by simp





text \<open>
  C8: when fitting the tree interpreter raises, \<open>make_scores\<close> does not pass the exception
  on.  Its outcome is the same whichever exception the interpreter raised; if it returns,
  the \<open>intrp\<close> entry is \<open>None\<close>; and it does return, with every other entry computed as
  usual, whenever the remaining steps (the treatment name, the per-row table and its
  assertion, the four metrics) go through.
\<close>

theorem interpreter_failure_swallowed:
  assumes "intrp_interpret lib cate df = Inl e"
  shows "make_scores lib est df cate r
           = make_scores (lib\<lparr>intrp_interpret := \<lambda>c f. Inl e'\<rparr>) est df cate r
       \<and> (\<forall>d. make_scores lib est df cate r = Inr d \<longrightarrow> getitem d ''intrp'' = Inr (SIntrp None))
       \<and> (treatment_of (treatment_name est) = Inr t
           \<and> values_table lib est t df cate = Inr table
           \<and> df_len (pd lib) table = df_len (pd lib) df
           \<and> erupt_make_scores lib est df cate = Inr a
           \<and> qini_make_score lib est df cate = Inr q
           \<and> auc_make_score lib est df cate = Inr u
           \<and> (case r of None \<Rightarrow> Inr (IntN 0) | Some scorer \<Rightarrow> r_make_score cate scorer) = Inr rs
          \<longrightarrow> make_scores lib est df cate r =
                Inr [(''erupt'', SNum a), (''qini'', SNum q), (''auc'', SNum u),
                     (''r_score'', SNum rs), (''ate'', SNum (np_mean lib cate)),
                     (''intrp'', SIntrp None), (''values'', SValues table)])"
proof (intro conjI allI impI)
  show "make_scores lib est df cate r
           = make_scores (lib\<lparr>intrp_interpret := \<lambda>c f. Inl e'\<rparr>) est df cate r"
    using assms
    by (simp add: make_scores_def fit_intrp_def intrp_interpret_update_other cong: if_cong)
next
  fix d assume "make_scores lib est df cate r = Inr d"
  then show "getitem d ''intrp'' = Inr (SIntrp None)"
    using assms by (elim make_scores_Inr) (simp add: getitem_def fit_intrp_fail)
next
  assume "treatment_of (treatment_name est) = Inr t
           \<and> values_table lib est t df cate = Inr table
           \<and> df_len (pd lib) table = df_len (pd lib) df
           \<and> erupt_make_scores lib est df cate = Inr a
           \<and> qini_make_score lib est df cate = Inr q
           \<and> auc_make_score lib est df cate = Inr u
           \<and> (case r of None \<Rightarrow> Inr (IntN 0) | Some scorer \<Rightarrow> r_make_score cate scorer) = Inr rs"
  then show "make_scores lib est df cate r =
                Inr [(''erupt'', SNum a), (''qini'', SNum q), (''auc'', SNum u),
                     (''r_score'', SNum rs), (''ate'', SNum (np_mean lib cate)),
                     (''intrp'', SIntrp None), (''values'', SValues table)]"
    using assms by (simp add: make_scores_def then_do_simps fit_intrp_fail)
qed

theorem interpreter_failure_swallowed_witness:
  "intrp_interpret rows_scoring [2, -1] two_rows = Inl ValueError
   \<and> make_scores rows_scoring plain_estimator two_rows [2, -1] None
       = make_scores (rows_scoring\<lparr>intrp_interpret := \<lambda>c f. Inl KeyError\<rparr>)
           plain_estimator two_rows [2, -1] None
   \<and> make_scores rows_scoring plain_estimator two_rows [2, -1] None = Inr two_rows_scores
   \<and> getitem two_rows_scores ''intrp'' = Inr (SIntrp None)"
proof -
  have f: "intrp_interpret rows_scoring [2, -1] two_rows = Inl ValueError"
    by (simp add: rows_scoring_def two_rows_def)
  show ?thesis
    using f make_scores_two_rows
      interpreter_failure_swallowed [OF f, where e' = KeyError and est = plain_estimator
        and r = None]
    by simp
qed

section \<open>Properties of the search\<close>

subsection \<open>Dictionaries\<close>

lemma map_of_setitem: "map_of (setitem d k v) = (map_of d)(k \<mapsto> v)"
  by (simp add: setitem_def update_conv')

lemma keys_setitem: "fst ` set (setitem d k v) = insert k (fst ` set d)"
  by (simp add: setitem_def dom_update)


subsection \<open>The calls of a trial\<close>

lemma estimate_effect_events:
  "estimate_effect lib self config = (evs, r) \<Longrightarrow> ev \<in> set evs \<Longrightarrow>
     \<exists>name cfg c. estimator_name self = Some name \<and> estimator_cfg self = Some cfg
        \<and> clean_config lib config = Inr c
        \<and> evs = [EstimateEffect name (dict_merge (init_params cfg) c)]"
  by (auto simp: estimate_effect_def Let_def split: sum.splits option.splits)

lemma estimate_effect_Inr:
  "estimate_effect lib self config = (evs, Inr r) \<Longrightarrow>
     \<exists>name cfg c. estimator_name self = Some name \<and> estimator_cfg self = Some cfg
        \<and> clean_config lib config = Inr c
        \<and> evs = [EstimateEffect name (dict_merge (init_params cfg) c)]"
  by (auto simp: estimate_effect_def Let_def split: sum.splits option.splits)

subsection \<open>One step of the loop\<close>

lemma record_result_frame:
  "record_result self name last_result = (err, self') \<Longrightarrow>
     tune_results self' = tune_results self \<and> estimator_list self' = estimator_list self
     \<and> settings_of self' = settings_of self
     \<and> (\<forall>k. k \<noteq> name \<longrightarrow> map_of (scores self') k = map_of (scores self) k)"
  by (auto simp: record_result_def Let_def map_of_setitem split: sum.splits prod.splits if_splits)

lemma estimate_effect_event_names:
  "estimate_effect lib self config = (evs, r) \<Longrightarrow> estimator_name self = Some name \<Longrightarrow>
     ev \<in> set evs \<Longrightarrow> event_name ev = name"
  by (auto dest: estimate_effect_events)

lemma fit_step_empty_space:
  assumes "method_params lib name = Inr cfg" and "search_space cfg = []"
  shows "fit_step lib name self =
     (let self1 = self\<lparr>estimator_name := Some name, estimator_cfg := Some cfg,
                        tune_results := setitem (tune_results self) name (Some [])\<rparr> in
      case estimate_effect lib self1 (init_params cfg) of
        (evs, Inl e) \<Rightarrow> (Trial name (init_params cfg) # evs, Some e, self1)
      | (evs, Inr last_result) \<Rightarrow>
          (case record_result self1 name last_result of
             (err, self2) \<Rightarrow> (Trial name (init_params cfg) # evs, err, self2)))"
  using assms by (simp add: fit_step_def Let_def)

lemma fit_step_search:
  assumes "method_params lib name = Inr cfg" and "search_space cfg \<noteq> []"
  shows "fit_step lib name self =
     (let self1 = self\<lparr>estimator_name := Some name, estimator_cfg := Some cfg\<rparr> in
      case tune_run lib (tune_with_config lib self1) (search_space cfg)
                (metric (settings_of self)) (tuner (settings_of self)) of
        Inl e \<Rightarrow> ([TuneRun name (search_space cfg)], Some e, self1)
      | Inr results \<Rightarrow>
        (let self2 = self1\<lparr>tune_results :=
                           setitem (tune_results self) name (best_config_of results)\<rparr> in
         case best_trial_of results of
           None \<Rightarrow>
             ([TuneRun name (search_space cfg)], None,
              self2\<lparr>scores := setitem (scores self) name RNone\<rparr>)
         | Some last_result \<Rightarrow>
             (case record_result self2 name last_result of
                (err, self3) \<Rightarrow> ([TuneRun name (search_space cfg)], err, self3))))"
  using assms by (simp add: fit_step_def Let_def split: sum.splits option.splits)

lemma fit_step_frame:
  assumes "fit_step lib name self = (evs, err, self')"
  shows "estimator_list self' = estimator_list self"
    and "settings_of self' = settings_of self"
    and "\<forall>ev \<in> set evs. event_name ev = name"
    and "k \<noteq> name \<Longrightarrow> map_of (tune_results self') k = map_of (tune_results self) k"
    and "k \<noteq> name \<Longrightarrow> map_of (scores self') k = map_of (scores self) k"
proof -
  have "estimator_list self' = estimator_list self \<and> settings_of self' = settings_of self
    \<and> (\<forall>ev \<in> set evs. event_name ev = name)
    \<and> (k \<noteq> name \<longrightarrow> map_of (tune_results self') k = map_of (tune_results self) k)
    \<and> (k \<noteq> name \<longrightarrow> map_of (scores self') k = map_of (scores self) k)"
  proof (cases "method_params lib name")
    case (Inl e)
    then show ?thesis using assms by (auto simp: fit_step_def)
  next
    case (Inr cfg)
    show ?thesis
    proof (cases "search_space cfg = []")
      case True
      let ?s1 = "self\<lparr>estimator_name := Some name, estimator_cfg := Some cfg,
                        tune_results := setitem (tune_results self) name (Some [])\<rparr>"
      obtain evs0 r where ee: "estimate_effect lib ?s1 (init_params cfg) = (evs0, r)"
        by (cases "estimate_effect lib ?s1 (init_params cfg)")
      have names: "\<forall>ev \<in> set evs0. event_name ev = name"
        using estimate_effect_event_names[OF ee] by simp
      show ?thesis
        using assms names unfolding fit_step_empty_space[OF Inr True] Let_def ee
        by (auto simp: map_of_setitem split: sum.splits prod.splits
            dest!: record_result_frame)
    next
      case False
      show ?thesis
        using assms unfolding fit_step_search[OF Inr False] Let_def
        by (auto simp: map_of_setitem split: sum.splits prod.splits option.splits
            dest!: record_result_frame)
    qed
  qed
  then show "estimator_list self' = estimator_list self"
    and "settings_of self' = settings_of self"
    and "\<forall>ev \<in> set evs. event_name ev = name"
    and "k \<noteq> name \<Longrightarrow> map_of (tune_results self') k = map_of (tune_results self) k"
    and "k \<noteq> name \<Longrightarrow> map_of (scores self') k = map_of (scores self) k"
    by auto
qed

subsection \<open>The sample search\<close>

lemma sample_lib_fields:
  "scoring sample_lib = rows_scoring"
  "method_params sample_lib ''SLearner'' = Inr fixed_cfg"
  "method_params sample_lib ''LinearDML'' = Inr tuned_cfg"
  "clean_config sample_lib c = Inr c"
  "train_test_split sample_lib df part = Inr (df, df)"
  "causal_model_new sample_lib df t y w x = Inr ()"
  "identify_effect sample_lib cm = Inr ()"
  "r_score_wrapper_new sample_lib train test y t w x = Inr sample_r_scorer"
  "cm_estimate_effect sample_lib cm ie name params = Inr ()"
  "estimator_of sample_lib e = plain_estimator"
  "cate_estimates sample_lib e = Inr [2, -1]"
  "effect_inner sample_lib e df = Inr [2, -1]"
  "effect sample_lib e df = Inr [2, -1]"
  "tune_run sample_lib trial space m ts = Inr \<lparr>best_config_of = None, best_trial_of = None\<rparr>"
  "file_open sample_lib path = Inr ()"
  by (simp_all add: sample_lib_def sample_r_scorer_def)

lemma make_scores_scored:
  "make_scores rows_scoring plain_estimator two_rows [2, -1] (Some (\<lambda>cate. Inr (FloatN 0)))
     = Inr two_rows_scored"
  by (simp add: sample_scoring_defs two_rows_scored_def)

lemma df_select_rows: "df_select (pd rows_scoring) df ks = Inr df"
  by (simp add: rows_scoring_def rows_pandas_def)

lemma compute_metrics_sample:
  assumes "estimator_name st = Some name" "train_df st = Some two_rows"
    "test_df st = Some two_rows" "r_scorer st = Some sample_r_scorer"
  shows "compute_metrics sample_lib st () = Inr (sample_metrics name)"
  using assms
  by (simp add: compute_metrics_def treatment_effects_def sample_lib_fields attr_def
      then_do_simps df_select_rows make_scores_scored sample_r_scorer_def sample_metrics_def)

lemma flat_results_sample:
  "flat_results two_rows_scored [''erupt'', ''qini'', ''auc'', ''ate'', ''r_score''] []
     = Inr [(''erupt'', RNum (FloatN 1)), (''qini'', RNum (FloatN 0)),
            (''auc'', RNum (FloatN (1 / 2))), (''ate'', RNum (FloatN (1 / 2))),
            (''r_score'', RNum (FloatN 0))]"
  by (simp add: two_rows_scored_def getitem_def then_do_simps setitem_def)

lemma estimate_effect_sample:
  assumes "estimator_cfg st = Some cfg" "estimator_name st = Some name"
    "causal_model st = Some ()" "train_df st = Some two_rows"
    "test_df st = Some two_rows" "r_scorer st = Some sample_r_scorer"
    "settings_of st = sample_settings"
  shows "estimate_effect sample_lib st config
     = ([EstimateEffect name (dict_merge (init_params cfg) config)], Inr (sample_result name))"
proof -
  have m: "metric sample_settings # metrics_to_report sample_settings
             = [''erupt'', ''qini'', ''auc'', ''ate'', ''r_score'']"
    by (simp add: sample_settings_def)
  have d: "dict_merge [(''erupt'', RNum (FloatN 1)), (''qini'', RNum (FloatN 0)),
            (''auc'', RNum (FloatN (1 / 2))), (''ate'', RNum (FloatN (1 / 2))),
            (''r_score'', RNum (FloatN 0))]
            [(''estimator'', REstimator ()), (''scores'', RScores (sample_metrics name))]
          = sample_result name"
    by (simp add: dict_merge_def setitem_def sample_result_def)
  have mt: "m_train (sample_metrics name) = two_rows_scored"
    by (simp add: sample_metrics_def)
  show ?thesis
    using assms
    by (simp add: estimate_effect_def sample_lib_fields compute_metrics_sample[OF assms(2,4,5,6)]
        then_do_simps m mt flat_results_sample d del: flat_results.simps)
qed

lemma record_result_sample:
  assumes "settings_of st = sample_settings"
  shows "record_result st name (sample_result name)
     = (None, st\<lparr>estimates := setitem (estimates st) name (REstimator ()),
                 full_scores := setitem (full_scores st) name (RScores (sample_metrics name)),
                 scores := setitem (scores st) name (RNum (FloatN 1))\<rparr>)"
proof -
  have p1: "pop (sample_result name) ''estimator''
    = Inr (REstimator (), [(''erupt'', RNum (FloatN 1)), (''qini'', RNum (FloatN 0)),
      (''auc'', RNum (FloatN (1 / 2))), (''ate'', RNum (FloatN (1 / 2))),
      (''r_score'', RNum (FloatN 0)), (''scores'', RScores (sample_metrics name))])"
    by (simp add: pop_def sample_result_def)
  have p2: "pop [(''erupt'', RNum (FloatN 1)), (''qini'', RNum (FloatN 0)),
      (''auc'', RNum (FloatN (1 / 2))), (''ate'', RNum (FloatN (1 / 2))),
      (''r_score'', RNum (FloatN 0)), (''scores'', RScores (sample_metrics name))] ''scores''
    = Inr (RScores (sample_metrics name), [(''erupt'', RNum (FloatN 1)), (''qini'', RNum (FloatN 0)),
      (''auc'', RNum (FloatN (1 / 2))), (''ate'', RNum (FloatN (1 / 2))),
      (''r_score'', RNum (FloatN 0))])"
    by (simp add: pop_def)
  have r: "report [(''erupt'', RNum (FloatN 1)), (''qini'', RNum (FloatN 0)),
      (''auc'', RNum (FloatN (1 / 2))), (''ate'', RNum (FloatN (1 / 2))),
      (''r_score'', RNum (FloatN 0))] [''erupt'', ''qini'', ''auc'', ''ate'', ''r_score''] = None"
    by (simp add: getitem_def)
  have g: "getitem [(''erupt'', RNum (FloatN 1)), (''qini'', RNum (FloatN 0)),
      (''auc'', RNum (FloatN (1 / 2))), (''ate'', RNum (FloatN (1 / 2))),
      (''r_score'', RNum (FloatN 0))] ''erupt'' = Inr (RNum (FloatN 1))"
    by (simp add: getitem_def)
  have s: "metric sample_settings = ''erupt''"
    "metrics_to_report sample_settings = [''qini'', ''auc'', ''ate'', ''r_score'']"
    "verbose (tuner sample_settings) = 3"
    by (simp_all add: sample_settings_def)
  show ?thesis
    by (simp add: record_result_def p1 p2 assms s g r Let_def del: report.simps)
qed


lemma fit_step_SLearner:
  assumes "causal_model st = Some ()" "train_df st = Some two_rows"
    "test_df st = Some two_rows" "r_scorer st = Some sample_r_scorer"
    "settings_of st = sample_settings"
  shows "fit_step sample_lib ''SLearner'' st
     = ([Trial ''SLearner'' (init_params fixed_cfg),
         EstimateEffect ''SLearner'' (dict_merge (init_params fixed_cfg) (init_params fixed_cfg))],
        None,
        st\<lparr>estimator_name := Some ''SLearner'', estimator_cfg := Some fixed_cfg,
           tune_results := setitem (tune_results st) ''SLearner'' (Some []),
           estimates := setitem (estimates st) ''SLearner'' (REstimator ()),
           full_scores := setitem (full_scores st) ''SLearner'' (RScores (sample_metrics ''SLearner'')),
           scores := setitem (scores st) ''SLearner'' (RNum (FloatN 1))\<rparr>)"
proof -
  have e: "search_space fixed_cfg = []" by (simp add: fixed_cfg_def)
  show ?thesis
    unfolding fit_step_def Let_def
    by (simp add: sample_lib_fields e estimate_effect_sample record_result_sample assms)
qed

lemma fit_step_LinearDML:
  "fit_step sample_lib ''LinearDML'' st
     = ([TuneRun ''LinearDML'' (search_space tuned_cfg)], None,
        st\<lparr>estimator_name := Some ''LinearDML'', estimator_cfg := Some tuned_cfg,
           tune_results := setitem (tune_results st) ''LinearDML'' None,
           scores := setitem (scores st) ''LinearDML'' RNone\<rparr>)"
proof -
  have e: "search_space tuned_cfg \<noteq> []" by (simp add: tuned_cfg_def)
  show ?thesis
    unfolding fit_step_def Let_def
    by (simp add: sample_lib_fields e)
qed

lemma fit_sample:
  "fit sample_lib two_rows ''treatment'' ''outcome'' [] [] sample_self
     = (sample_events, None, sample_fitted)"
proof -
  have s: "test_size sample_settings = None" "train_size sample_settings = 4 / 5"
    "model_save_path sample_settings = None"
    by (simp_all add: sample_settings_def)
  have c: "init_params fixed_cfg = [(''alpha'', PInt 1), (''intercept'', PBool True)]"
     "search_space tuned_cfg = [(''alpha'', PObj ''uniform'')]"
    by (simp_all add: fixed_cfg_def tuned_cfg_def)
  show ?thesis
    unfolding fit_def Let_def
    by (simp add: sample_self_def sample_lib_fields s fit_step_SLearner fit_step_LinearDML
        save_models_def sample_fitted_def sample_events_def c setitem_def dict_merge_def)
qed

subsection \<open>The parameters of a trial\<close>



subsection \<open>The loop of \<open>fit\<close>\<close>

lemma fit_loop_frame:
  assumes "fit_loop lib names self = (evs, err, self')"
  shows "estimator_list self' = estimator_list self \<and> settings_of self' = settings_of self
    \<and> (\<forall>ev \<in> set evs. event_name ev \<in> set names)
    \<and> (k \<notin> set names \<longrightarrow> map_of (tune_results self') k = map_of (tune_results self) k)
    \<and> (k \<notin> set names \<longrightarrow> map_of (scores self') k = map_of (scores self) k)"
  using assms
proof (induction names arbitrary: self evs err self')
  case Nil
  then show ?case by simp
next
  case (Cons name names)
  obtain evs1 err1 self1 where st: "fit_step lib name self = (evs1, err1, self1)"
    by (cases "fit_step lib name self")
  note fr = fit_step_frame[OF st]
  show ?case
  proof (cases err1)
    case (Some e)
    then show ?thesis using Cons.prems st fr by auto
  next
    case None
    obtain evs2 err2 self2 where lp: "fit_loop lib names self1 = (evs2, err2, self2)"
      by (cases "fit_loop lib names self1")
    have res: "evs = evs1 @ evs2" "self' = self2"
      using Cons.prems st None lp by auto
    show ?thesis
      using Cons.IH[OF lp] fr res by auto
  qed
qed

lemma fit_step_empty_space_done:
  assumes "method_params lib name = Inr cfg" and "search_space cfg = []"
    and "fit_step lib name self = (evs, None, self')"
  shows "\<exists>c. clean_config lib (init_params cfg) = Inr c
    \<and> evs = [Trial name (init_params cfg),
              EstimateEffect name (dict_merge (init_params cfg) c)]
    \<and> map_of (tune_results self') name = Some (Some [])"
proof -
  let ?s1 = "self\<lparr>estimator_name := Some name, estimator_cfg := Some cfg,
                    tune_results := setitem (tune_results self) name (Some [])\<rparr>"
  obtain evs0 r where ee: "estimate_effect lib ?s1 (init_params cfg) = (evs0, r)"
    by (cases "estimate_effect lib ?s1 (init_params cfg)")
  from assms(3) obtain last where r: "r = Inr last"
    unfolding fit_step_empty_space[OF assms(1,2)] Let_def ee
    by (cases r) auto
  from estimate_effect_Inr[OF ee[unfolded r]]
  obtain c where c: "clean_config lib (init_params cfg) = Inr c"
    "evs0 = [EstimateEffect name (dict_merge (init_params cfg) c)]"
    by auto
  obtain err2 self2 where rr: "record_result ?s1 name last = (err2, self2)"
    by (cases "record_result ?s1 name last")
  have "evs = Trial name (init_params cfg) # evs0" "self' = self2"
    using assms(3) unfolding fit_step_empty_space[OF assms(1,2)] Let_def ee r
    by (auto simp: rr)
  moreover have "tune_results self2 = tune_results ?s1"
    using record_result_frame[OF rr] by simp
  ultimately show ?thesis using c by (simp add: map_of_setitem)
qed

lemma fit_loop_empty_space:
  assumes "fit_loop lib names self = (evs, None, self')"
    and "name \<in> set names" and "distinct names"
    and "method_params lib name = Inr cfg" and "search_space cfg = []"
  shows "\<exists>c. clean_config lib (init_params cfg) = Inr c
    \<and> filter (\<lambda>ev. event_name ev = name) evs
        = [Trial name (init_params cfg), EstimateEffect name (dict_merge (init_params cfg) c)]
    \<and> map_of (tune_results self') name = Some (Some [])"
  using assms(1-3)
proof (induction names arbitrary: self evs self')
  case Nil
  then show ?case by simp
next
  case (Cons n names)
  obtain evs1 err1 self1 where st: "fit_step lib n self = (evs1, err1, self1)"
    by (cases "fit_step lib n self")
  have e1: "err1 = None" using Cons.prems(1) st by (cases err1) auto
  obtain evs2 err2 self2 where lp: "fit_loop lib names self1 = (evs2, err2, self2)"
    by (cases "fit_loop lib names self1")
  have res: "evs = evs1 @ evs2" "self' = self2" "err2 = None"
    using Cons.prems(1) st e1 lp by auto
  show ?case
  proof (cases "n = name")
    case True
    then have "name \<notin> set names" using Cons.prems(3) by simp
    then have none: "filter (\<lambda>ev. event_name ev = name) evs2 = []"
      and keep: "map_of (tune_results self2) name = map_of (tune_results self1) name"
      using fit_loop_frame[OF lp, of name] by (auto simp: filter_empty_conv)
    from fit_step_empty_space_done[OF assms(4,5) st[unfolded e1 True]]
    obtain c where c: "clean_config lib (init_params cfg) = Inr c"
      "evs1 = [Trial name (init_params cfg), EstimateEffect name (dict_merge (init_params cfg) c)]"
      "map_of (tune_results self1) name = Some (Some [])"
      by auto
    show ?thesis using c none keep res by simp
  next
    case False
    then have "filter (\<lambda>ev. event_name ev = name) evs1 = []"
      using fit_step_frame(3)[OF st] by (auto simp: filter_empty_conv)
    moreover have "name \<in> set names" "distinct names"
      using Cons.prems(2,3) False by auto
    ultimately show ?thesis
      using Cons.IH[OF lp[unfolded res(3)]] res by simp
  qed
qed

lemma map_of_best_config_per_estimator:
  "map_of (best_config_per_estimator self) k
     = (if k \<in> set (estimator_list self) then map_of (tune_results self) k else None)"
proof -
  let ?f = "\<lambda>d estimator. case map_of (tune_results self) estimator of
                None \<Rightarrow> d | Some config \<Rightarrow> setitem d estimator config"
  have "map_of (foldl ?f acc xs) k
          = (if k \<in> set xs \<and> map_of (tune_results self) k \<noteq> None
             then map_of (tune_results self) k else map_of acc k)" for acc xs
    by (induction xs arbitrary: acc) (auto simp: map_of_setitem split: option.splits)
  from this[of "[]" "estimator_list self"] show ?thesis
    by (auto simp: best_config_per_estimator_def)
qed

lemma fit_returns:
  assumes "fit lib data treatment outcome common_causes effect_modifiers self = (evs, None, self')"
  shows "\<exists>self0. fit_loop lib (estimator_list self) self0 = (evs, None, self')
     \<and> estimator_list self0 = estimator_list self"
  using assms unfolding fit_def Let_def
  by (fastforce split: sum.splits prod.splits option.splits)

text \<open>
  C5: when \<open>fit\<close> returns, for every estimator of the list (whose names are distinct)
  with an empty search space, \<open>fit\<close> has started exactly one trial for it, with its
  fixed \<open>init_params\<close> as the configuration and hence one call of \<open>estimate_effect\<close>, it
  has not run the tuner for it, and \<open>best_config_per_estimator\<close> holds the empty
  dictionary for it.
\<close>

theorem empty_search_space_single_trial:
  assumes "fit lib data treatment outcome common_causes effect_modifiers self = (evs, None, self')"
    and "name \<in> set (estimator_list self)" and "distinct (estimator_list self)"
    and "method_params lib name = Inr cfg" and "search_space cfg = []"
  shows "\<exists>c. clean_config lib (init_params cfg) = Inr c
    \<and> filter (\<lambda>ev. event_name ev = name) evs
        = [Trial name (init_params cfg), EstimateEffect name (dict_merge (init_params cfg) c)]
    \<and> getitem (best_config_per_estimator self') name = Inr (Some [])"
proof -
  from fit_returns[OF assms(1)] obtain self0 where
    l: "estimator_list self0 = estimator_list self"
    and lp: "fit_loop lib (estimator_list self) self0 = (evs, None, self')"
    by auto
  have el: "estimator_list self' = estimator_list self"
    using fit_loop_frame[OF lp] l by simp
  from fit_loop_empty_space[OF lp assms(2,3,4,5)] obtain c where
    c: "clean_config lib (init_params cfg) = Inr c"
    "filter (\<lambda>ev. event_name ev = name) evs
        = [Trial name (init_params cfg), EstimateEffect name (dict_merge (init_params cfg) c)]"
    "map_of (tune_results self') name = Some (Some [])"
    by auto
  have "getitem (best_config_per_estimator self') name = Inr (Some [])"
    using c(3) assms(2) el by (simp add: getitem_def map_of_best_config_per_estimator)
  then show ?thesis using c by auto
qed

theorem empty_search_space_single_trial_witness:
  "fit sample_lib two_rows ''treatment'' ''outcome'' [] [] sample_self
     = (sample_events, None, sample_fitted)
   \<and> ''SLearner'' \<in> set (estimator_list sample_self)
   \<and> distinct (estimator_list sample_self)
   \<and> method_params sample_lib ''SLearner'' = Inr fixed_cfg
   \<and> search_space fixed_cfg = []
   \<and> filter (\<lambda>ev. event_name ev = ''SLearner'') sample_events
       = [Trial ''SLearner'' (init_params fixed_cfg),
          EstimateEffect ''SLearner'' (dict_merge (init_params fixed_cfg) (init_params fixed_cfg))]
   \<and> getitem (best_config_per_estimator sample_fitted) ''SLearner'' = Inr (Some [])"
proof -
  have a: "''SLearner'' \<in> set (estimator_list sample_self)"
    "distinct (estimator_list sample_self)"
    by (simp_all add: sample_self_def)
  have b: "method_params sample_lib ''SLearner'' = Inr fixed_cfg"
    by (simp add: sample_lib_fields)
  have c: "search_space fixed_cfg = []"
    by (simp add: fixed_cfg_def)
  show ?thesis
    using fit_sample a b c
      empty_search_space_single_trial [OF fit_sample a b c]
    by (simp add: sample_lib_fields)
qed

subsection \<open>An estimator whose search fails\<close>

text \<open>
  C2, as the specification states it, fails: in the sample search the tuner finds no best
  trial for \<open>LinearDML\<close>, whose search space is not empty, and after \<open>fit\<close> the mapping of
  best scores does have an entry for \<open>LinearDML\<close>; its value is \<open>None\<close> (line 291).
\<close>

theorem failed_search_counterexample:
  "method_params sample_lib ''LinearDML'' = Inr tuned_cfg
   \<and> search_space tuned_cfg \<noteq> []
   \<and> tune_run sample_lib (tune_with_config sample_lib sample_fitted) (search_space tuned_cfg)
        (metric sample_settings) (tuner sample_settings)
       = Inr \<lparr>best_config_of = None, best_trial_of = None\<rparr>
   \<and> fit sample_lib two_rows ''treatment'' ''outcome'' [] [] sample_self
       = (sample_events, None, sample_fitted)
   \<and> ''LinearDML'' \<in> fst ` set (best_score_per_estimator sample_fitted)
   \<and> map_of (best_score_per_estimator sample_fitted) ''LinearDML'' = Some RNone"
  by (simp add: sample_lib_fields fit_sample tuned_cfg_def best_score_per_estimator_def
      sample_fitted_def)

text \<open>
  C2, amended: for an estimator whose search space is not empty and for which the tuner
  returns no best trial, the step of \<open>fit\<close> raises nothing, leaves \<open>estimates\<close> and
  \<open>full_scores\<close> as they were and records the estimator's score as \<open>None\<close>: the mapping
  of best scores has an entry for it, with the value \<open>None\<close>.  The loop then goes on with
  the remaining estimators, and the entry is still \<open>None\<close> at the end of the loop unless
  the same name is processed again.
\<close>

theorem failed_search_recorded_as_none:
  assumes "method_params lib name = Inr cfg" and "search_space cfg \<noteq> []"
    and "tune_run lib
           (tune_with_config lib (self\<lparr>estimator_name := Some name, estimator_cfg := Some cfg\<rparr>))
           (search_space cfg) (metric (settings_of self)) (tuner (settings_of self))
         = Inr results"
    and "best_trial_of results = None"
  shows "\<exists>self1.
       fit_step lib name self = ([TuneRun name (search_space cfg)], None, self1)
     \<and> getitem (best_score_per_estimator self1) name = Inr RNone
     \<and> estimates self1 = estimates self
     \<and> full_scores self1 = full_scores self
     \<and> fit_loop lib (name # names) self
         = (case fit_loop lib names self1 of
              (evs, err, self2) \<Rightarrow> (TuneRun name (search_space cfg) # evs, err, self2))
     \<and> (name \<notin> set names \<longrightarrow>
          getitem (best_score_per_estimator (snd (snd (fit_loop lib (name # names) self)))) name
            = Inr RNone)"
proof -
  let ?self1 = "self\<lparr>estimator_name := Some name, estimator_cfg := Some cfg,
                      tune_results := setitem (tune_results self) name (best_config_of results),
                      scores := setitem (scores self) name RNone\<rparr>"
  have st: "fit_step lib name self = ([TuneRun name (search_space cfg)], None, ?self1)"
    unfolding fit_step_search[OF assms(1,2)] Let_def
    by (simp add: assms(3,4))
  have g: "getitem (best_score_per_estimator ?self1) name = Inr RNone"
    by (simp add: getitem_def best_score_per_estimator_def map_of_setitem)
  obtain evs err self2 where lp: "fit_loop lib names ?self1 = (evs, err, self2)"
    by (cases "fit_loop lib names ?self1")
  have loop: "fit_loop lib (name # names) self
         = (case fit_loop lib names ?self1 of
              (evs, err, self2) \<Rightarrow> (TuneRun name (search_space cfg) # evs, err, self2))"
    by (simp add: st lp)
  have keep: "name \<notin> set names \<longrightarrow>
          getitem (best_score_per_estimator (snd (snd (fit_loop lib (name # names) self)))) name
            = Inr RNone"
  proof
    assume "name \<notin> set names"
    then have "map_of (scores self2) name = map_of (scores ?self1) name"
      using fit_loop_frame[OF lp, of name] by simp
    moreover have "fit_loop lib (name # names) self
                     = (TuneRun name (search_space cfg) # evs, err, self2)"
      by (simp add: st lp)
    ultimately show "getitem (best_score_per_estimator (snd (snd (fit_loop lib (name # names) self)))) name
            = Inr RNone"
      by (simp add: getitem_def best_score_per_estimator_def map_of_setitem
          del: fit_loop.simps)
  qed
  show ?thesis
    using st g loop keep by (intro exI[of _ ?self1]) simp
qed

theorem failed_search_recorded_as_none_witness:
  "fit_step sample_lib ''LinearDML'' sample_self
     = ([TuneRun ''LinearDML'' (search_space tuned_cfg)], None,
        sample_self\<lparr>estimator_name := Some ''LinearDML'', estimator_cfg := Some tuned_cfg,
           tune_results := setitem (tune_results sample_self) ''LinearDML'' None,
           scores := setitem (scores sample_self) ''LinearDML'' RNone\<rparr>)
   \<and> getitem (best_score_per_estimator (snd (snd (fit_loop sample_lib [''LinearDML''] sample_self))))
        ''LinearDML'' = Inr RNone"
proof -
  have a: "method_params sample_lib ''LinearDML'' = Inr tuned_cfg"
    by (simp add: sample_lib_fields)
  have b: "search_space tuned_cfg \<noteq> []" by (simp add: tuned_cfg_def)
  have c: "tune_run sample_lib
           (tune_with_config sample_lib
              (sample_self\<lparr>estimator_name := Some ''LinearDML'', estimator_cfg := Some tuned_cfg\<rparr>))
           (search_space tuned_cfg) (metric (settings_of sample_self)) (tuner (settings_of sample_self))
         = Inr \<lparr>best_config_of = None, best_trial_of = None\<rparr>"
    by (simp add: sample_lib_fields)
  have d: "best_trial_of \<lparr>best_config_of = None, best_trial_of = None\<rparr>
             = (None :: (rows, unit, unit) trial_result option)"
    by simp
  show ?thesis
    using failed_search_recorded_as_none [OF a b c d, of "[]"] fit_step_LinearDML[of sample_self]
    by auto
qed

subsection \<open>The best estimator\<close>

text \<open>
  C3 does not hold of the code: \<open>best_estimator\<close> takes the maximum over all entries of
  \<open>self.scores\<close>, and the entry of an estimator whose search failed is \<open>None\<close>.  In the
  sample search \<open>SLearner\<close> completes with the score 1 and \<open>LinearDML\<close> fails; the
  specification's best estimator is \<open>SLearner\<close>, but comparing \<open>None\<close> with 1 raises
  \<open>TypeError\<close>.
\<close>

theorem best_estimator_raises_after_failed_search:
  "fit sample_lib two_rows ''treatment'' ''outcome'' [] [] sample_self
     = (sample_events, None, sample_fitted)
   \<and> best_score_per_estimator sample_fitted
       = [(''SLearner'', RNum (FloatN 1)), (''LinearDML'', RNone)]
   \<and> best_estimator sample_fitted = Inl TypeError"
  by (simp add: fit_sample best_score_per_estimator_def best_estimator_def sample_fitted_def
      then_do_simps)

lemma float_scores_simps:
  "float_scores [] = []"
  "float_scores ((k, x) # kxs) = (k, RNum (FloatN x)) # float_scores kxs"
  by (simp_all add: float_scores_def)

lemma first_maximum_0:
  "first_maximum ((k, x) # rest) 0 \<longleftrightarrow> (\<forall>j<length rest. snd (rest ! j) \<le> x)"
  by (auto simp: first_maximum_def nth_Cons' less_Suc_eq_0_disj)

lemma first_maximum_Suc:
  "first_maximum ((k, x) # rest) (Suc i) \<longleftrightarrow> first_maximum rest i \<and> x < snd (rest ! i)"
  by (auto simp: first_maximum_def less_Suc_eq_0_disj)

lemma max_scan_floats:
  "d = float_scores rest \<Longrightarrow>
     \<exists>i. first_maximum ((k, x) # rest) i
       \<and> max_scan (k, RNum (FloatN x)) d = Inr (fst (((k, x) # rest) ! i))"
proof (induction rest arbitrary: d k x)
  case Nil
  have "first_maximum [(k, x)] 0" by (simp add: first_maximum_0)
  then show ?case using Nil by (auto simp: float_scores_simps intro!: exI[of _ 0])
next
  case (Cons p rest)
  obtain k1 y where p: "p = (k1, y)" by (cases p)
  have d: "d = (k1, RNum (FloatN y)) # tl d" "tl d = float_scores rest"
    using Cons.prems by (simp_all add: p float_scores_simps)
  show ?case
  proof (cases "x < y")
    case True
    have step: "max_scan (k, RNum (FloatN x)) d = max_scan (k1, RNum (FloatN y)) (tl d)"
      using True by (subst d(1)) (simp add: then_do_simps)
    from Cons.IH[OF d(2), of k1 y] obtain i where
      i: "first_maximum ((k1, y) # rest) i"
         "max_scan (k1, RNum (FloatN y)) (tl d) = Inr (fst (((k1, y) # rest) ! i))"
      by (elim exE conjE)
    have "first_maximum ((k, x) # p # rest) (Suc i)"
      using i(1) True by (cases i) (auto simp: p first_maximum_Suc first_maximum_0)
    then show ?thesis
      using step i(2) by (auto simp: p intro!: exI[of _ "Suc i"])
  next
    case False
    have step: "max_scan (k, RNum (FloatN x)) d = max_scan (k, RNum (FloatN x)) (tl d)"
      using False by (subst d(1)) (simp add: then_do_simps)
    from Cons.IH[OF d(2), of k x] obtain i where
      i: "first_maximum ((k, x) # rest) i"
         "max_scan (k, RNum (FloatN x)) (tl d) = Inr (fst (((k, x) # rest) ! i))"
      by (elim exE conjE)
    show ?thesis
    proof (cases i)
      case 0
      have "first_maximum ((k, x) # p # rest) 0"
        using i(1) False unfolding 0
        by (auto simp: p first_maximum_0 nth_Cons' less_Suc_eq_0_disj)
      then show ?thesis using step i(2) 0 by (auto intro!: exI[of _ 0])
    next
      case (Suc i')
      have "first_maximum ((k, x) # p # rest) (Suc (Suc i'))"
        using i(1) False unfolding Suc
        by (auto simp: p first_maximum_Suc first_maximum_def nth_Cons' less_Suc_eq_0_disj)
      then show ?thesis using step i(2) Suc by (auto intro!: exI[of _ "Suc (Suc i')"])
    qed
  qed
qed

text \<open>
  When every entry of \<open>self.scores\<close> is a float (every estimator completed),
  \<open>best_estimator\<close> returns the name at the first maximum: no score is greater than its
  score, and every estimator before it in the order of the entries has a strictly
  smaller score.
\<close>

theorem best_estimator_first_maximum:
  assumes "scores self = float_scores kxs" and "kxs \<noteq> []"
  shows "\<exists>i. first_maximum kxs i \<and> best_estimator self = Inr (fst (kxs ! i))"
proof -
  obtain k x rest where kxs: "kxs = (k, x) # rest"
    using assms(2) by (cases kxs) auto
  have sc: "scores self = (k, RNum (FloatN x)) # tl (scores self)"
    "tl (scores self) = float_scores rest"
    using assms(1) by (simp_all add: kxs float_scores_simps)
  have "best_estimator self = max_scan (k, RNum (FloatN x)) (tl (scores self))"
    unfolding best_estimator_def by (subst sc(1)) simp
  then show ?thesis
    using max_scan_floats[OF sc(2), of k x] by (simp add: kxs)
qed

theorem best_estimator_first_maximum_witness:
  "scores (sample_fitted\<lparr>scores := float_scores
             [(''SLearner'', 1), (''LinearDML'', 2), (''ForestDRLearner'', 2)]\<rparr>)
     = float_scores [(''SLearner'', 1), (''LinearDML'', 2), (''ForestDRLearner'', 2)]
   \<and> first_maximum [(''SLearner'', 1), (''LinearDML'', 2), (''ForestDRLearner'', 2)] 1
   \<and> best_estimator (sample_fitted\<lparr>scores := float_scores
        [(''SLearner'', 1), (''LinearDML'', 2), (''ForestDRLearner'', 2)]\<rparr>)
     = Inr ''LinearDML''"
proof -
  have a: "scores (sample_fitted\<lparr>scores := float_scores
             [(''SLearner'', 1), (''LinearDML'', 2), (''ForestDRLearner'', 2)]\<rparr>)
     = float_scores [(''SLearner'', 1), (''LinearDML'', 2), (''ForestDRLearner'', 2)]"
    by simp
  have b: "[(''SLearner'', 1 :: real), (''LinearDML'', 2), (''ForestDRLearner'', 2)] \<noteq> []"
    by simp
  have c: "first_maximum [(''SLearner'', 1), (''LinearDML'', 2), (''ForestDRLearner'', 2)] 1"
    using first_maximum_Suc[of "''SLearner''" 1 "[(''LinearDML'', 2), (''ForestDRLearner'', 2)]" 0]
    by (simp add: first_maximum_0 less_Suc_eq_0_disj)
  show ?thesis
    using best_estimator_first_maximum [OF a b] c
    by (simp add: best_estimator_def float_scores_simps then_do_simps)
qed

section \<open>Further properties\<close>

text \<open>
  For the sentinel \<open>"auto"\<close> and for the empty list, resolution warns and returns all
  available estimators.
\<close>

theorem auto_resolves_to_all_available:
  "requested = PStr ''auto'' \<or> requested = PList [] \<Longrightarrow>
     create_estimator_list registry requested
       = Inr \<lparr>warning = Some ''No estimators specified, adding all available estimators...'',
              estimators = available_estimators registry\<rparr>"
  by (auto simp: create_estimator_list_def)

theorem auto_resolves_to_all_available_witness:
  "create_estimator_list sample_registry (PStr ''auto'')
       = Inr \<lparr>warning = Some ''No estimators specified, adding all available estimators...'',
              estimators = [''backdoor.econml.dml.LinearDML'',
                            ''backdoor.econml.dml.SparseLinearDML'',
                            ''backdoor.econml.metalearners.SLearner'']\<rparr>"
  using auto_resolves_to_all_available [of "PStr ''auto''" sample_registry]
  by (simp add: available_sample_registry)

text \<open>
  For a non-empty list of strings none of which occurs in an available estimator name,
  resolution warns "requested estimators not implemented, continuing with defaults" and
  returns all available estimators.
\<close>

theorem unmatched_request_falls_back:
  assumes "rs \<noteq> []"
    and "list_all (\<lambda>r. \<not> list_ex (str_in r) (available_estimators registry)) rs"
  shows "create_estimator_list registry (PList (map PStr rs))
       = Inr \<lparr>warning = Some ''requested estimators not implemented, continuing with defaults'',
              estimators = available_estimators registry\<rparr>"
proof -
  have c: "concat (map (\<lambda>r. filter (str_in r) (available_estimators registry)) rs) = []"
    using assms(2) by (auto simp: list_all_iff list_ex_iff filter_empty_conv)
  have e: "dict_fromkeys (concat (map (\<lambda>r. filter (str_in r) (available_estimators registry)) rs))
             = []"
    unfolding c by (rule dict_fromkeys_Nil)
  have v: "verify_estimator_list (PList (map PStr rs))"
    by (simp add: list_all_iff)
  show ?thesis
    using assms(1) e v
    by (simp add: create_estimator_list_def requested_matches_strs Let_def)
qed

theorem unmatched_request_falls_back_witness:
  "create_estimator_list sample_registry (PList (map PStr [''linear_regression'', ''pasta'']))
       = Inr \<lparr>warning = Some ''requested estimators not implemented, continuing with defaults'',
              estimators = [''backdoor.econml.dml.LinearDML'',
                            ''backdoor.econml.dml.SparseLinearDML'',
                            ''backdoor.econml.metalearners.SLearner'']\<rparr>"
proof -
  have a: "[''linear_regression'', ''pasta''] \<noteq> []" by simp
  have b: "list_all (\<lambda>r. \<not> list_ex (str_in r) (available_estimators sample_registry))
             [''linear_regression'', ''pasta'']"
    by (simp add: available_sample_registry)
  show ?thesis
    using unmatched_request_falls_back [OF a b] by (simp add: available_sample_registry)
qed

text \<open>
  \<open>_estimate_effect\<close> without an estimator context (no \<open>estimator_cfg\<close> or no
  \<open>estimator_name\<close> has been set) raises \<open>AttributeError\<close> and calls no estimator.
\<close>

theorem estimate_without_context_raises:
  assumes "clean_config lib config = Inr c"
    and "estimator_cfg self = None \<or> estimator_name self = None"
  shows "estimate_effect lib self config = ([], Inl AttributeError)"
  using assms by (auto simp: estimate_effect_def Let_def split: option.splits)

theorem estimate_without_context_raises_witness:
  "estimate_effect sample_lib sample_self [] = ([], Inl AttributeError)"
proof -
  have a: "clean_config sample_lib [] = Inr []" by (simp add: sample_lib_fields)
  have b: "estimator_cfg sample_self = None \<or> estimator_name sample_self = None"
    by (simp add: sample_self_def)
  show ?thesis using estimate_without_context_raises [OF a b] by simp
qed

end
